theory Spec2Isabelle
  imports Complex_Main "HOL-Library.Sublist"
begin

section \<open>Data model (types/job.types)\<close>

text \<open>
  The marketing-package generator is a TypeScript program. Its interfaces become records,
  its string unions become datatypes, an optional field \<open>f?: T\<close> becomes \<open>T option\<close>
  (\<open>None\<close> is \<open>undefined\<close>), and a rejected promise or a thrown exception becomes the
  \<open>Inl\<close> branch of a sum. A field of type \<open>T | null\<close> (the brief's \<open>tokenAgeSec\<close>)
  becomes a \<open>T nullable\<close>, whose \<open>Null\<close> is \<open>null\<close>.
  Strings are \<open>char list\<close>: the model follows the program on
  text whose code units are ASCII, which is what the keyword tables, the profile table
  and the case conversions below are about; the one non-ASCII character the program
  writes itself (the dash of its templates) is the constant \<open>EM_DASH\<close>, which is only ever
  concatenated, never measured.
\<close>

datatype ResolutionSource = Coingecko | Dexscreener | User | Fallback

datatype DataSource = Website | ThematicOnly | Mixed

datatype UtilityClass = Protocol | Culture | Hybrid

record ConfidenceFactors =
  websiteFound :: bool
  officialLogo :: bool
  allClipsSucceeded :: bool
  noFallbacksUsed :: bool

section \<open>Confidence scorer (modules/confidenceScorer)\<close>

text \<open>
  \<^verbatim>\<open>let score = 0;
  if (factors.websiteFound) score++;
  if (factors.officialLogo) score++;
  if (factors.allClipsSucceeded) score++;
  if (factors.noFallbacksUsed) score++;
  const finalScore = Math.max(1, score);
  return finalScore;\<close>
\<close>

definition computeConfidence :: "ConfidenceFactors \<Rightarrow> int" where
  "computeConfidence factors =
     (let score = 0;
          score = (if websiteFound factors then score + 1 else score);
          score = (if officialLogo factors then score + 1 else score);
          score = (if allClipsSucceeded factors then score + 1 else score);
          score = (if noFallbacksUsed factors then score + 1 else score)
      in max 1 score)"

text \<open>The number of factors that are true, and the clamp of the specification.\<close>

definition trueFactors :: "ConfidenceFactors \<Rightarrow> int" where
  "trueFactors factors =
     int (length (filter id
       [websiteFound factors, officialLogo factors, allClipsSucceeded factors,
        noFallbacksUsed factors]))"

definition clamp :: "int \<Rightarrow> int \<Rightarrow> int \<Rightarrow> int" where
  "clamp x lo hi = min hi (max lo x)"

section \<open>Provenance tag (core/orchestrator, determineDataSource)\<close>

text \<open>
  \<^verbatim>\<open>if (websiteFound && (resolutionSource === "coingecko" || resolutionSource === "dexscreener"))
      return "website";
  if (!websiteFound && resolutionSource === "fallback")
      return "thematic_only";
  return "mixed";\<close>
\<close>

definition determineDataSource :: "bool \<Rightarrow> ResolutionSource \<Rightarrow> DataSource" where
  "determineDataSource wsFound src =
     (if wsFound \<and> (src = Coingecko \<or> src = Dexscreener) then Website
      else if \<not> wsFound \<and> src = Fallback then ThematicOnly
      else Mixed)"

text \<open>A primary (official metadata) source is one of the two lookup services.\<close>

definition primarySource :: "ResolutionSource \<Rightarrow> bool" where
  "primarySource src = (src = Coingecko \<or> src = Dexscreener)"

section \<open>Strings\<close>

text \<open>
  JavaScript's truthiness of an optional string: \<open>undefined\<close> and the empty string are
  falsy. \<open>truthyString\<close> keeps the string exactly when \<open>if (s)\<close> would take the branch;
  \<open>orElse s d\<close> is \<open>s || d\<close>.
\<close>

definition truthyString :: "string option \<Rightarrow> string option" where
  "truthyString s = (case s of None \<Rightarrow> None | Some v \<Rightarrow> (if v = [] then None else Some v))"

definition orElse :: "string option \<Rightarrow> string \<Rightarrow> string" where
  "orElse s d = (case truthyString s of None \<Rightarrow> d | Some v \<Rightarrow> v)"

text \<open>\<open>toLowerCase\<close> and \<open>toUpperCase\<close> on ASCII letters; other code units are kept.\<close>

definition toLowerChar :: "char \<Rightarrow> char" where
  "toLowerChar c =
     (let n = (of_char c :: nat) in if 65 \<le> n \<and> n \<le> 90 then char_of (n + 32) else c)"

definition toUpperChar :: "char \<Rightarrow> char" where
  "toUpperChar c =
     (let n = (of_char c :: nat) in if 97 \<le> n \<and> n \<le> 122 then char_of (n - 32) else c)"

definition toLowerCase :: "string \<Rightarrow> string" where
  "toLowerCase s = map toLowerChar s"

definition toUpperCase :: "string \<Rightarrow> string" where
  "toUpperCase s = map toUpperChar s"

text \<open>\<open>text.includes(s)\<close>: \<open>s\<close> occurs in \<open>text\<close> as a contiguous run.\<close>

definition includesText :: "string \<Rightarrow> string \<Rightarrow> bool" where
  "includesText text s = sublist s text"

text \<open>
  \<open>s.charAt(0).toUpperCase() + s.slice(1)\<close>, the expression that capitalizes a label;
  on the empty string both parts are empty.
\<close>

definition capitalize :: "string \<Rightarrow> string" where
  "capitalize s = (case s of [] \<Rightarrow> [] | c # cs \<Rightarrow> toUpperChar c # cs)"

text \<open>
  \<open>s.split(/[.!?]/)[0]\<close>: the text before the first sentence mark (all of it when there
  is none); and \<open>trim()\<close>, which drops white space at both ends.
\<close>

definition sentenceMark :: "char \<Rightarrow> bool" where
  "sentenceMark c = (c = CHR ''.'' \<or> c = CHR ''!'' \<or> c = CHR ''?'')"

definition firstSegment :: "string \<Rightarrow> string" where
  "firstSegment s = takeWhile (\<lambda>c. \<not> sentenceMark c) s"

definition whiteSpace :: "char \<Rightarrow> bool" where
  "whiteSpace c = ((of_char c :: nat) \<in> {9, 10, 11, 12, 13, 32, 160})"

definition trim :: "string \<Rightarrow> string" where
  "trim s = rev (dropWhile whiteSpace (rev (dropWhile whiteSpace s)))"

text \<open>The dash of the program's templates (U+2014), as its UTF-8 bytes.\<close>

definition EM_DASH :: string where
  "EM_DASH = [CHR 0xE2, CHR 0x80, CHR 0x94]"

section \<open>Utility classifier (modules/utilityClassifier)\<close>

definition PROTOCOL_SIGNALS :: "string list" where
  "PROTOCOL_SIGNALS =
     [''ai'', ''neural'', ''infrastructure'', ''protocol'', ''agent'',
      ''chain'', ''defi'', ''oracle'', ''layer'', ''rollup'', ''zk'',
      ''bridge'', ''swap'', ''dao'', ''governance'', ''staking'',
      ''validator'', ''node'', ''sdk'', ''api'', ''smart contract'']"

definition CULTURE_SIGNALS :: "string list" where
  "CULTURE_SIGNALS =
     [''meme'', ''community'', ''moon'', ''dog'', ''vibes'',
      ''pepe'', ''degen'', ''ape'', ''frog'', ''cat'',
      ''nft'', ''pfp'', ''wagmi'', ''gm'', ''fren'',
      ''shib'', ''wojak'', ''chad'']"

text \<open>
  \<^verbatim>\<open>for (const s of SIGNALS) { if (text.includes(s)) hits++; }\<close>
\<close>

definition countHits :: "string list \<Rightarrow> string \<Rightarrow> nat" where
  "countHits signals text =
     fold (\<lambda>s hits. if includesText text s then hits + 1 else hits) signals 0"

text \<open>
  \<^verbatim>\<open>const text = `${projectName} ${description}`.toLowerCase();
  if (protocolHits > 0 && cultureHits > 0) {
      result = protocolHits >= cultureHits ? "hybrid" : "hybrid";
  } else if (protocolHits > 0) { result = "protocol"; }
  else if (cultureHits > 0) { result = "culture"; }
  else { result = "hybrid"; }\<close>
\<close>

definition classifyUtility :: "string \<Rightarrow> string \<Rightarrow> UtilityClass" where
  "classifyUtility description projectName =
     (let text = toLowerCase (projectName @ '' '' @ description);
          protocolHits = countHits PROTOCOL_SIGNALS text;
          cultureHits = countHits CULTURE_SIGNALS text
      in if protocolHits > 0 \<and> cultureHits > 0
         then (if protocolHits \<ge> cultureHits then Hybrid else Hybrid)
         else if protocolHits > 0 then Protocol
         else if cultureHits > 0 then Culture
         else Hybrid)"

text \<open>
  The specification's reading of a hit: some keyword of the set occurs in the
  concatenated name and description, compared without regard to case, that is, some
  contiguous piece of the text is the keyword once lower-cased.
\<close>

definition occursIgnoringCase :: "string \<Rightarrow> string \<Rightarrow> bool" where
  "occursIgnoringCase keyword text =
     (\<exists>before piece after. text = before @ piece @ after \<and> toLowerCase piece = keyword)"

definition anyKeyword :: "string list \<Rightarrow> string \<Rightarrow> bool" where
  "anyKeyword signals text = (\<exists>k. k \<in> set signals \<and> occursIgnoringCase k text)"

section \<open>Tone profile resolver (modules/toneProfile)\<close>

record ToneProfile =
  tone_utilityClass :: UtilityClass
  tone_intent :: string
  tone_theme :: string
  profileName :: string

definition TWENTY_FOUR_HOURS_SEC :: int where
  "TWENTY_FOUR_HOURS_SEC = 86400"

text \<open>The string a utility class is in the program.\<close>

fun utilityClassName :: "UtilityClass \<Rightarrow> string" where
  "utilityClassName Protocol = ''protocol''"
| "utilityClassName Culture = ''culture''"
| "utilityClassName Hybrid = ''hybrid''"

text \<open>The table of known names, keyed by \<open>"utilityClass:intent:theme"\<close>.\<close>

definition PROFILE_NAMES :: "(string \<times> string) list" where
  "PROFILE_NAMES =
     [(''protocol:launch:minimalist'', ''The Institutional Reveal''),
      (''protocol:launch:cyberpunk'', ''The Genesis Protocol''),
      (''protocol:hype:cyberpunk'', ''The Builder's Signal''),
      (''protocol:hype:minimalist'', ''The Quiet Powerhouse''),
      (''protocol:stealth:cyberpunk'', ''The Shadow Architect''),
      (''protocol:stealth:minimalist'', ''The Silent Deploy''),
      (''protocol:engage:space'', ''The Frontier Builder''),
      (''protocol:engage:minimalist'', ''The Open Standard''),
      (''culture:launch:retro-arcade'', ''The Pixel Drop''),
      (''culture:launch:space'', ''The Cosmic Debut''),
      (''culture:hype:retro-arcade'', ''The Hype Machine''),
      (''culture:hype:space'', ''The Galactic Wave''),
      (''culture:stealth:retro-arcade'', ''The Underground Legend''),
      (''culture:stealth:space'', ''The Dark Horse''),
      (''culture:engage:space'', ''The Community Arc''),
      (''culture:engage:retro-arcade'', ''The Player One Alliance''),
      (''hybrid:launch:cyberpunk'', ''The Dual Signal''),
      (''hybrid:launch:minimalist'', ''The Crossover Event''),
      (''hybrid:hype:cyberpunk'', ''The Momentum Stack''),
      (''hybrid:hype:space'', ''The Orbital Push''),
      (''hybrid:stealth:retro-arcade'', ''The Hidden Gem''),
      (''hybrid:engage:space'', ''The Coalition Build'')]"

text \<open>
  \<^verbatim>\<open>if (userIntent) return userIntent.toLowerCase();
  if (tokenAgeSec !== null && tokenAgeSec !== undefined && tokenAgeSec < TWENTY_FOUR_HOURS_SEC)
      return "launch";
  return "hype";\<close>
  The age is \<open>number | null | undefined\<close>: \<open>None\<close> stands for both absent values.
\<close>

definition resolveIntent :: "string option \<Rightarrow> int option \<Rightarrow> string" where
  "resolveIntent userIntent tokenAgeSec =
     (case truthyString userIntent of
        Some i \<Rightarrow> toLowerCase i
      | None \<Rightarrow>
          (case tokenAgeSec of
             Some age \<Rightarrow> (if age < TWENTY_FOUR_HOURS_SEC then ''launch'' else ''hype'')
           | None \<Rightarrow> ''hype''))"

text \<open>
  \<^verbatim>\<open>if (userTheme) return userTheme.toLowerCase();
  switch (utilityClass) {
      case "protocol": return "minimalist";
      case "culture": return "retro-arcade";
      case "hybrid": default: return "cyberpunk"; }\<close>
\<close>

definition resolveTheme :: "string option \<Rightarrow> UtilityClass \<Rightarrow> string" where
  "resolveTheme userTheme utilityClass =
     (case truthyString userTheme of
        Some t \<Rightarrow> toLowerCase t
      | None \<Rightarrow>
          (case utilityClass of
             Protocol \<Rightarrow> ''minimalist''
           | Culture \<Rightarrow> ''retro-arcade''
           | Hybrid \<Rightarrow> ''cyberpunk''))"

text \<open>
  \<^verbatim>\<open>const key = `${utilityClass}:${intent}:${theme}`;
  if (PROFILE_NAMES[key]) return PROFILE_NAMES[key];
  const classLabel = utilityClass.charAt(0).toUpperCase() + utilityClass.slice(1);
  const intentLabel = intent.charAt(0).toUpperCase() + intent.slice(1);
  return `The ${classLabel} ${intentLabel}`;\<close>
\<close>

definition profileKey :: "UtilityClass \<Rightarrow> string \<Rightarrow> string \<Rightarrow> string" where
  "profileKey utilityClass intent theme =
     utilityClassName utilityClass @ '':'' @ intent @ '':'' @ theme"

definition resolveProfileName :: "UtilityClass \<Rightarrow> string \<Rightarrow> string \<Rightarrow> string" where
  "resolveProfileName utilityClass intent theme =
     (let key = profileKey utilityClass intent theme
      in case truthyString (map_of PROFILE_NAMES key) of
           Some name \<Rightarrow> name
         | None \<Rightarrow>
             (let classLabel = capitalize (utilityClassName utilityClass);
                  intentLabel = capitalize intent
              in ''The '' @ classLabel @ '' '' @ intentLabel))"

definition resolveToneProfile ::
  "UtilityClass \<Rightarrow> string option \<Rightarrow> string option \<Rightarrow> int option \<Rightarrow> ToneProfile" where
  "resolveToneProfile utilityClass userIntent userTheme tokenAgeSec =
     (let intent = resolveIntent userIntent tokenAgeSec;
          theme = resolveTheme userTheme utilityClass;
          name = resolveProfileName utilityClass intent theme
      in \<lparr>tone_utilityClass = utilityClass, tone_intent = intent, tone_theme = theme,
          profileName = name\<rparr>)"

text \<open>
  The specification's table: the named archetypes, keyed by the triple of utility
  class, intent and theme.
\<close>

definition PROFILE_TABLE :: "((UtilityClass \<times> string \<times> string) \<times> string) list" where
  "PROFILE_TABLE =
     [((Protocol, ''launch'', ''minimalist''), ''The Institutional Reveal''),
      ((Protocol, ''launch'', ''cyberpunk''), ''The Genesis Protocol''),
      ((Protocol, ''hype'', ''cyberpunk''), ''The Builder's Signal''),
      ((Protocol, ''hype'', ''minimalist''), ''The Quiet Powerhouse''),
      ((Protocol, ''stealth'', ''cyberpunk''), ''The Shadow Architect''),
      ((Protocol, ''stealth'', ''minimalist''), ''The Silent Deploy''),
      ((Protocol, ''engage'', ''space''), ''The Frontier Builder''),
      ((Protocol, ''engage'', ''minimalist''), ''The Open Standard''),
      ((Culture, ''launch'', ''retro-arcade''), ''The Pixel Drop''),
      ((Culture, ''launch'', ''space''), ''The Cosmic Debut''),
      ((Culture, ''hype'', ''retro-arcade''), ''The Hype Machine''),
      ((Culture, ''hype'', ''space''), ''The Galactic Wave''),
      ((Culture, ''stealth'', ''retro-arcade''), ''The Underground Legend''),
      ((Culture, ''stealth'', ''space''), ''The Dark Horse''),
      ((Culture, ''engage'', ''space''), ''The Community Arc''),
      ((Culture, ''engage'', ''retro-arcade''), ''The Player One Alliance''),
      ((Hybrid, ''launch'', ''cyberpunk''), ''The Dual Signal''),
      ((Hybrid, ''launch'', ''minimalist''), ''The Crossover Event''),
      ((Hybrid, ''hype'', ''cyberpunk''), ''The Momentum Stack''),
      ((Hybrid, ''hype'', ''space''), ''The Orbital Push''),
      ((Hybrid, ''stealth'', ''retro-arcade''), ''The Hidden Gem''),
      ((Hybrid, ''engage'', ''space''), ''The Coalition Build'')]"

section \<open>Retry executor (utils/retry)\<close>

text \<open>
  The options object: every field is optional. The retry count and the delay are
  counts of retries and of milliseconds, natural numbers.
\<close>

record RetryOptions =
  maxRetries :: "nat option"
  baseDelayMs :: "nat option"
  label :: "string option"

text \<open>
  What \<open>withRetry\<close> does to the world: it invokes the operation, with the outcome noted
  here, and it sleeps (\<open>setTimeout\<close>) for a number of milliseconds.
\<close>

datatype ('t, 'a) retryEvent = Invoked "'t + 'a" | Waited nat

text \<open>
  \<^verbatim>\<open>let lastError;
  for (let attempt = 0; attempt <= maxRetries; attempt++) {
      try { return await fn(); }
      catch (err) {
          lastError = err;
          if (attempt < maxRetries) {
              const delay = baseDelayMs * Math.pow(2, attempt);
              await new Promise((r) => setTimeout(r, delay));
          }
      }
  }
  throw lastError;\<close>
  The operation is a step on a world \<open>'w\<close> that returns a value (\<open>Inr\<close>) or throws
  (\<open>Inl\<close>). A thrown value is an \<open>'e option\<close>: \<open>None\<close> is \<open>undefined\<close>, the value of
  \<open>lastError\<close> before the first failure. The loop carries \<open>attempt\<close>, \<open>lastError\<close>, the
  world and the events so far. The log lines are diagnostics only and are left out.
\<close>

function retryLoop ::
  "('w \<Rightarrow> ('e option + 'a) \<times> 'w) \<Rightarrow> nat \<Rightarrow> nat \<Rightarrow> nat \<Rightarrow> 'e option \<Rightarrow> 'w
     \<Rightarrow> ('e option, 'a) retryEvent list
     \<Rightarrow> ('e option + 'a) \<times> 'w \<times> ('e option, 'a) retryEvent list" where
  "retryLoop fn maxR baseDelay attempt lastError w events =
     (if attempt \<le> maxR then
        (case fn w of
           (Inr v, w') \<Rightarrow> (Inr v, w', events @ [Invoked (Inr v)])
         | (Inl err, w') \<Rightarrow>
             (if attempt < maxR
              then retryLoop fn maxR baseDelay (attempt + 1) err w'
                     (events @ [Invoked (Inl err), Waited (baseDelay * 2 ^ attempt)])
              else retryLoop fn maxR baseDelay (attempt + 1) err w'
                     (events @ [Invoked (Inl err)])))
      else (Inl lastError, w, events))"
  by pat_completeness auto
termination
  by (relation "measure (\<lambda>(fn, maxR, baseDelay, attempt, lastError, w, events). maxR + 1 - attempt)")
    auto

declare retryLoop.simps [simp del]

definition withRetry ::
  "('w \<Rightarrow> ('e option + 'a) \<times> 'w) \<Rightarrow> RetryOptions \<Rightarrow> 'w
     \<Rightarrow> ('e option + 'a) \<times> 'w \<times> ('e option, 'a) retryEvent list" where
  "withRetry fn opts w =
     (let maxR = (case maxRetries opts of None \<Rightarrow> 2 | Some m \<Rightarrow> m);
          baseDelay = (case baseDelayMs opts of None \<Rightarrow> 1000 | Some d \<Rightarrow> d)
      in retryLoop fn maxR baseDelay 0 None w [])"

text \<open>
  The specification's side. \<open>outcomes fn w n\<close> is what up to \<open>n\<close> successive invocations
  of the operation give, from world \<open>w\<close>, stopping after the first success, and
  \<open>worldAfter\<close> the world they leave. \<open>schedule b k outs\<close> lays the invocations out in
  time: between two of them, the wait \<open>b * 2 ^ attempt\<close>, the first attempt being
  number \<open>k\<close>.
\<close>

fun outcomes :: "('w \<Rightarrow> ('t + 'a) \<times> 'w) \<Rightarrow> 'w \<Rightarrow> nat \<Rightarrow> ('t + 'a) list" where
  "outcomes fn w 0 = []"
| "outcomes fn w (Suc n) =
     (case fn w of
        (Inr v, w') \<Rightarrow> [Inr v]
      | (Inl err, w') \<Rightarrow> Inl err # outcomes fn w' n)"

fun worldAfter :: "('w \<Rightarrow> ('t + 'a) \<times> 'w) \<Rightarrow> 'w \<Rightarrow> nat \<Rightarrow> 'w" where
  "worldAfter fn w 0 = w"
| "worldAfter fn w (Suc n) =
     (case fn w of
        (Inr v, w') \<Rightarrow> w'
      | (Inl err, w') \<Rightarrow> worldAfter fn w' n)"

fun schedule :: "nat \<Rightarrow> nat \<Rightarrow> ('t + 'a) list \<Rightarrow> ('t, 'a) retryEvent list" where
  "schedule b k [] = []"
| "schedule b k [r] = [Invoked r]"
| "schedule b k (r # r' # rs) = Invoked r # Waited (b * 2 ^ k) # schedule b (Suc k) (r' # rs)"

definition invocations :: "('t, 'a) retryEvent list \<Rightarrow> ('t + 'a) list" where
  "invocations events = concat (map (\<lambda>e. case e of Invoked r \<Rightarrow> [r] | Waited d \<Rightarrow> []) events)"

definition waits :: "('t, 'a) retryEvent list \<Rightarrow> nat list" where
  "waits events = concat (map (\<lambda>e. case e of Invoked r \<Rightarrow> [] | Waited d \<Rightarrow> [d]) events)"

section \<open>Job records (types/job.types)\<close>

text \<open>
  Field names are the program's; where two interfaces share a field name, the later
  record's field carries its record's name in front.
\<close>

record GenerateJobInput =
  ticker :: "string option"
  contractAddress :: "string option"
  intent :: "string option"
  theme :: "string option"

record SocialLinks =
  twitter :: "string option"
  telegram :: "string option"
  discord :: "string option"
  website :: "string option"

record TokenResolution =
  projectName :: "string option"
  description :: "string option"
  logoUrl :: "string option"
  token_contractAddress :: "string option"
  websiteUrl :: "string option"
  socialLinks :: "SocialLinks option"
  pairCreatedAt :: "int option"
  resolutionSource :: ResolutionSource

record WebsiteScrapeResult =
  extractedText :: "string option"
  found :: bool

record BrandColors =
  primary :: string
  secondary :: string

record LogoResult =
  finalLogoUrl :: string
  brandColors :: BrandColors

datatype 'a nullable = Null | NonNull 'a

record CreativeBrief =
  brief_projectName :: string
  brief_ticker :: string
  brief_utilityClass :: UtilityClass
  oneLiner :: string
  brief_logoUrl :: string
  brief_brandColors :: BrandColors
  tokenAgeSec :: "int nullable"
  brief_socialLinks :: SocialLinks

record VisualThemes =
  mood :: string
  color_cues :: string
  lighting_style :: string
  motion_style :: string
  texture_keywords :: "string list"
  clip1_prompt :: string
  clip2_prompt :: string
  clip3_prompt :: string
  image_prompt :: string

record PostGenerationResult =
  posts :: "string \<times> string \<times> string"
  visualThemes :: VisualThemes

record BannerResult =
  heroBannerUrl :: string

record VideoResult =
  launchVideoUrl :: string
  clipsSucceeded :: nat

record GenerateJobOutput =
  hero_banner_url :: string
  launch_video_url :: string
  x_post_1 :: string
  x_post_2 :: string
  x_post_3 :: string
  brand_colors :: BrandColors
  tone_profile :: string
  confidence_level :: int
  generation_time_sec :: rat
  data_source :: DataSource

text \<open>
  The sources hold a second, older version of the program in TypeScript: its types, its
  orchestrator, its token resolver, its website scraper, its post generator and its video
  generator. In its types the job input has \<open>intent\<close> and \<open>style\<close>, both required, and
  the output has no \<open>tone_profile\<close>; their fields carry \<open>ts_\<close> in front here. Its
  \<open>TokenResolution\<close> has \<open>logoUrl\<close>, \<open>contractAddress\<close>, \<open>websiteUrl\<close> and
  \<open>resolutionSource\<close> only: it is the record above with the other optional fields absent.
  The other interfaces are the same in both versions.
\<close>

record GenerateJobInputTs =
  ts_ticker :: "string option"
  ts_contractAddress :: "string option"
  ts_intent :: string
  ts_style :: string

record GenerateJobOutputTs =
  ts_hero_banner_url :: string
  ts_launch_video_url :: string
  ts_x_post_1 :: string
  ts_x_post_2 :: string
  ts_x_post_3 :: string
  ts_brand_colors :: BrandColors
  ts_confidence_level :: int
  ts_generation_time_sec :: rat
  ts_data_source :: DataSource

text \<open>
  A thrown value, or the reason of a rejected promise: an error with its message, or
  \<open>undefined\<close> (\<open>None\<close>). \<open>await p k\<close> continues with the value of \<open>p\<close>, and rethrows when
  \<open>p\<close> is rejected, as \<open>await\<close> does outside a \<open>try\<close>.
\<close>

type_synonym thrown = "string option"

definition await :: "'e + 'a \<Rightarrow> ('a \<Rightarrow> 'e + 'b) \<Rightarrow> 'e + 'b" where
  "await p k = (case p of Inl err \<Rightarrow> Inl err | Inr v \<Rightarrow> k v)"

section \<open>Creative brief builder (modules/creativeBrief)\<close>

definition emptySocialLinks :: SocialLinks where
  "emptySocialLinks = \<lparr>twitter = None, telegram = None, discord = None, website = None\<rparr>"

text \<open>
  \<^verbatim>\<open>const projectName = token.projectName || ticker.toUpperCase();
  let oneLiner = `${projectName} [dash] a ${utilityClass} token on Base`;
  if (website.found && website.extractedText) {
      const firstSentence = website.extractedText.split(/[.!?]/)[0]?.trim();
      if (firstSentence && firstSentence.length > 10 && firstSentence.length <= 120)
          oneLiner = firstSentence;
  }
  let tokenAgeSec = null;
  if (token.pairCreatedAt)
      tokenAgeSec = Math.floor((Date.now() - token.pairCreatedAt) / 1000);
  const brief = { projectName, ticker: ticker.toUpperCase(), utilityClass, oneLiner,
      logoUrl: logo.finalLogoUrl, brandColors: logo.brandColors, tokenAgeSec,
      socialLinks: token.socialLinks || {} };\<close>
  The first argument is the reading of \<open>Date.now()\<close>, in milliseconds. A time stamp of 0
  is falsy, as is an absent one; \<open>tokenAgeSec\<close> then stays \<open>null\<close>. \<open>div\<close> on \<open>int\<close>
  rounds down, as \<open>Math.floor\<close> does.
\<close>

definition buildCreativeBrief ::
  "int \<Rightarrow> string \<Rightarrow> TokenResolution \<Rightarrow> LogoResult \<Rightarrow> UtilityClass \<Rightarrow> WebsiteScrapeResult
     \<Rightarrow> CreativeBrief" where
  "buildCreativeBrief dateNow tick token logo utilityClass site =
     (let projName = orElse (projectName token) (toUpperCase tick);
          templated = projName @ '' '' @ EM_DASH @ '' a '' @ utilityClassName utilityClass
                        @ '' token on Base'';
          line =
            (if found site then
               (case truthyString (extractedText site) of
                  None \<Rightarrow> templated
                | Some text \<Rightarrow>
                    (let firstSentence = trim (firstSegment text)
                     in if firstSentence \<noteq> [] \<and> length firstSentence > 10
                             \<and> length firstSentence \<le> 120
                        then firstSentence else templated))
             else templated);
          age =
            (case pairCreatedAt token of
               None \<Rightarrow> Null
             | Some createdAt \<Rightarrow>
                 (if createdAt = 0 then Null else NonNull ((dateNow - createdAt) div 1000)))
      in \<lparr>brief_projectName = projName,
          brief_ticker = toUpperCase tick,
          brief_utilityClass = utilityClass,
          oneLiner = line,
          brief_logoUrl = finalLogoUrl logo,
          brief_brandColors = brandColors logo,
          tokenAgeSec = age,
          brief_socialLinks =
            (case socialLinks token of None \<Rightarrow> emptySocialLinks | Some links \<Rightarrow> links)\<rparr>)"

section \<open>Orchestrator (core/orchestrator)\<close>

text \<open>
  \<^verbatim>\<open>const sentence = firstPost.split(/[.!?]/)[0]?.trim();
  if (sentence && sentence.length > 10 && sentence.length <= 80) return sentence;
  return `$${ticker.toUpperCase()} [dash] The Next Chapter`;\<close>
\<close>

definition extractTagline :: "string \<Rightarrow> string \<Rightarrow> string" where
  "extractTagline firstPost tick =
     (let sentence = trim (firstSegment firstPost)
      in if sentence \<noteq> [] \<and> length sentence > 10 \<and> length sentence \<le> 80
         then sentence
         else ''$'' @ toUpperCase tick @ '' '' @ EM_DASH @ '' The Next Chapter'')"

text \<open>\<open>s.split(/[...]/)\<close> for a character class: the pieces between the separators.\<close>

fun splitOn :: "(char \<Rightarrow> bool) \<Rightarrow> string \<Rightarrow> string list" where
  "splitOn sep [] = [[]]"
| "splitOn sep (c # cs) =
     (if sep c then [] # splitOn sep cs
      else (case splitOn sep cs of
              [] \<Rightarrow> [[c]]
            | piece # pieces \<Rightarrow> (c # piece) # pieces))"

text \<open>
  \<^verbatim>\<open>const lines = firstPost.split(/[.!?\n]/).map((l) => l.trim()).filter(Boolean);
  const short = lines.find((l) => l.length > 5 && l.length <= 50);
  if (short) return short;
  return `$${ticker.toUpperCase()}`;\<close>
\<close>

definition extractCta :: "string \<Rightarrow> string \<Rightarrow> string" where
  "extractCta firstPost tick =
     (let pieces = filter (\<lambda>l. l \<noteq> [])
                     (map trim (splitOn (\<lambda>c. sentenceMark c \<or> c = CHR 0x0A) firstPost))
      in case find (\<lambda>l. length l > 5 \<and> length l \<le> 50) pieces of
           Some short \<Rightarrow> short
         | None \<Rightarrow> ''$'' @ toUpperCase tick)"

text \<open>
  The stages the orchestrator awaits, as it imports them: each is an asynchronous
  function, which returns a value or rejects. With them, the two clock readings of a
  run: \<open>Date.now()\<close> when the brief is built, and the timer's elapsed milliseconds at the
  end.
\<close>

record Collaborators =
  call_resolveToken :: "string option \<Rightarrow> string option \<Rightarrow> thrown + TokenResolution"
  call_scrapeWebsite :: "string option \<Rightarrow> thrown + WebsiteScrapeResult"
  call_manageLogo :: "string \<Rightarrow> string option \<Rightarrow> thrown + LogoResult"
  call_generatePosts ::
    "CreativeBrief \<Rightarrow> ToneProfile \<Rightarrow> WebsiteScrapeResult \<Rightarrow> thrown + PostGenerationResult"
  call_generateBanner ::
    "string \<Rightarrow> VisualThemes \<Rightarrow> LogoResult \<Rightarrow> string \<Rightarrow> CreativeBrief \<Rightarrow> ToneProfile
       \<Rightarrow> thrown + BannerResult"
  call_generateVideo ::
    "string \<Rightarrow> VisualThemes \<Rightarrow> LogoResult \<Rightarrow> string \<Rightarrow> CreativeBrief \<Rightarrow> ToneProfile
       \<Rightarrow> string option \<Rightarrow> thrown + VideoResult"
  clock_dateNow :: int
  clock_elapsedMs :: int

text \<open>
  What a run writes to its log, as far as the claims look at it: the token, the scrape
  result and the logo of stage 1, the video result (\<open>clipsSucceeded\<close>, \<open>launchVideoUrl\<close>)
  and the confidence factors.
\<close>

record PipelineLog =
  logged_token :: TokenResolution
  logged_website :: WebsiteScrapeResult
  logged_logo :: LogoResult
  logged_video :: VideoResult
  logged_factors :: ConfidenceFactors

text \<open>
  \<open>runPipeline\<close>, in the order of the source. It has no \<open>try\<close>: a stage that rejects
  rejects the run. \<open>Promise.all\<close> of the banner and the video is awaited as a whole; the
  model looks at the banner's outcome first, and passes the video stage the arguments
  of the source, the fourth being \<open>logo.finalLogoUrl\<close>. \<open>resolveToneProfile\<close> is given
  \<open>brief.tokenAgeSec\<close>, whose \<open>null\<close> is an absent age there. \<open>Math.round\<close> is
  \<open>floor (x + 1/2)\<close>; the elapsed seconds are computed in exact arithmetic.
\<close>

definition runPipeline ::
  "Collaborators \<Rightarrow> GenerateJobInput \<Rightarrow> thrown + (GenerateJobOutput \<times> PipelineLog)" where
  "runPipeline c input =
     await (call_resolveToken c (ticker input) (contractAddress input)) (\<lambda>token.
     let fallbacksUsed = (resolutionSource token = Fallback) in
     await (call_scrapeWebsite c (websiteUrl token)) (\<lambda>site.
     let tick = orElse (ticker input) ''TOKEN'' in
     await (call_manageLogo c tick (logoUrl token)) (\<lambda>logo.
     let official = (truthyString (logoUrl token) \<noteq> None
                      \<and> (resolutionSource token = Coingecko
                           \<or> resolutionSource token = Dexscreener));
         descr = orElse (extractedText site) (orElse (description token) []);
         projName = orElse (projectName token) tick;
         utilityClass = classifyUtility descr projName;
         brief = buildCreativeBrief (clock_dateNow c) tick token logo utilityClass site;
         tone = resolveToneProfile utilityClass (intent input) (theme input)
                  (case tokenAgeSec brief of Null \<Rightarrow> None | NonNull age \<Rightarrow> Some age)
     in
     await (call_generatePosts c brief tone site) (\<lambda>generated.
     let post1 = fst (posts generated);
         post2 = fst (snd (posts generated));
         post3 = snd (snd (posts generated));
         tagline = extractTagline post1 tick;
         ctaText = extractCta post1 tick
     in
     await (call_generateBanner c tick (visualThemes generated) logo tagline brief tone)
       (\<lambda>bannerResult.
     await (call_generateVideo c tick (visualThemes generated) logo (finalLogoUrl logo) brief
              tone (Some ctaText))
       (\<lambda>videoResult.
     let fallbacksUsed = (fallbacksUsed \<or> clipsSucceeded videoResult < 2);
         factors = \<lparr>websiteFound = found site,
                    officialLogo = official,
                    allClipsSucceeded = (clipsSucceeded videoResult = 2),
                    noFallbacksUsed = \<not> fallbacksUsed\<rparr>;
         confidenceLevel = computeConfidence factors;
         generationTimeSec = (of_int (clock_elapsedMs c) :: rat) / 1000;
         dataSource = determineDataSource (found site) (resolutionSource token)
     in Inr (\<lparr>hero_banner_url = heroBannerUrl bannerResult,
               launch_video_url = launchVideoUrl videoResult,
               x_post_1 = post1,
               x_post_2 = post2,
               x_post_3 = post3,
               brand_colors = brandColors logo,
               tone_profile = profileName tone,
               confidence_level = confidenceLevel,
               generation_time_sec = of_int \<lfloor>generationTimeSec * 100 + 1 / 2\<rfloor> / 100,
               data_source = dataSource\<rparr>,
             \<lparr>logged_token = token,
               logged_website = site,
               logged_logo = logo,
               logged_video = videoResult,
               logged_factors = factors\<rparr>)))))))"

section \<open>The services behind the stages\<close>

text \<open>
  The stages call remote services (the token index, web pages, the text and image
  models, the renderer, the object store) and image routines. What such a call gives
  is not the program's to decide: it is a parameter of the model. A call made under
  \<open>withRetry\<close> takes the number of earlier invocations of that operation as its last
  argument, so that a service may fail first and answer later. \<open>searchDexScreener\<close>,
  \<open>lookupByAddress\<close>, \<open>fetchPage\<close>, \<open>downloadImage\<close>, \<open>generateBackground\<close>,
  \<open>compositeViaShotstack\<close>, \<open>generateRunwayClip\<close> and \<open>stitchViaShotstack\<close> are the program's
  functions of these names, each one request and the reading of its answer;
  \<open>chatCompletion\<close> is the request of \<open>generatePosts\<close> with \<open>parseResponse\<close>, which
  catches its own errors, and \<open>chatCompletionTs\<close> is that of the TypeScript
  \<open>generatePosts\<close>; \<open>colorThief\<close> is the body of the \<open>try\<close> of \<open>extractColors\<close>, and
  \<open>renderFallbackVideo\<close> that of \<open>generateFallbackVideo\<close>.
\<close>

type_synonym Buffer = string

record Services =
  searchDexScreener :: "string \<Rightarrow> nat \<Rightarrow> thrown + TokenResolution option"
  lookupByAddress :: "string \<Rightarrow> nat \<Rightarrow> thrown + TokenResolution option"
  fetchPage :: "string \<Rightarrow> nat \<Rightarrow> thrown + string"
  extractContent :: "string \<Rightarrow> string"
  downloadImage :: "string \<Rightarrow> nat \<Rightarrow> thrown + Buffer"
  createPlaceholderLogo :: "string \<Rightarrow> thrown + Buffer"
  sharpPng :: "Buffer \<Rightarrow> thrown + Buffer"
  colorThief :: "Buffer \<Rightarrow> thrown + BrandColors"
  S3_BUCKET :: "string option"
  S3_PUBLIC_URL :: "string option"
  s3Send :: "string \<Rightarrow> string \<Rightarrow> Buffer \<Rightarrow> string \<Rightarrow> thrown + unit"
  dateNow :: int
  timerElapsedMs :: int
  newOpenAI :: "thrown + unit"
  chatCompletion ::
    "CreativeBrief \<Rightarrow> ToneProfile \<Rightarrow> WebsiteScrapeResult \<Rightarrow> nat \<Rightarrow> thrown + PostGenerationResult"
  chatCompletionTs ::
    "GenerateJobInputTs \<Rightarrow> WebsiteScrapeResult \<Rightarrow> BrandColors \<Rightarrow> nat
       \<Rightarrow> thrown + PostGenerationResult"
  generateBackground :: "string \<Rightarrow> nat \<Rightarrow> thrown + string"
  sharpGradient :: "string \<Rightarrow> BrandColors \<Rightarrow> thrown + Buffer"
  compositeViaShotstack :: "string \<Rightarrow> string \<Rightarrow> string \<Rightarrow> BrandColors \<Rightarrow> nat \<Rightarrow> thrown + string"
  axiosGet :: "string \<Rightarrow> thrown + Buffer"
  sharpResizeJpeg :: "Buffer \<Rightarrow> thrown + Buffer"
  generateRunwayClip :: "string \<Rightarrow> nat \<Rightarrow> thrown + string"
  stitchViaShotstack :: "string list \<Rightarrow> string \<Rightarrow> BrandColors \<Rightarrow> string \<Rightarrow> nat \<Rightarrow> thrown + string"
  SHOTSTACK_API_KEY :: "string option"
  renderFallbackVideo :: "string \<Rightarrow> string \<Rightarrow> string \<Rightarrow> thrown + string"

text \<open>
  \<open>withRetry\<close> around such a call: the world of the operation is the count of its
  invocations; the result is what the caller awaits.
\<close>

definition retried :: "(nat \<Rightarrow> thrown + 'a) \<Rightarrow> RetryOptions \<Rightarrow> thrown + 'a" where
  "retried operation opts = fst (withRetry (\<lambda>calls. (operation calls, Suc calls)) opts 0)"

definition retryTwice :: "string \<Rightarrow> RetryOptions" where
  "retryTwice name = \<lparr>maxRetries = Some 2, baseDelayMs = None, label = Some name\<rparr>"

text \<open>A number in a template string, \<open>`${Date.now()}`\<close>: its decimal digits.\<close>

definition digitChar :: "int \<Rightarrow> char" where
  "digitChar d = char_of (48 + d)"

function decimal :: "int \<Rightarrow> string" where
  "decimal n =
     (if n < 0 then CHR ''-'' # decimal (- n)
      else if n < 10 then [digitChar n]
      else decimal (n div 10) @ [digitChar (n mod 10)])"
  by pat_completeness auto
termination
  by (relation "measure (\<lambda>n. if n < 0 then nat (- n) + 1 else nat n)") auto

declare decimal.simps [simp del]

section \<open>Token resolver (modules/tokenResolver)\<close>

text \<open>
  \<^verbatim>\<open>if (ticker) {
      try {
          const resolution = await withRetry(() => searchDexScreener(ticker),
              { label: "dexscreener-search", maxRetries: 2 });
          if (resolution) return resolution;
      } catch (err) { log.warn(...); }
  }
  if (contractAddress) {
      try {
          const resolution = await withRetry(() => lookupByAddress(contractAddress),
              { label: "dexscreener-address", maxRetries: 2 });
          if (resolution) return resolution;
      } catch (err) { log.warn(...); }
      return { contractAddress, resolutionSource: "user" };
  }
  return { resolutionSource: "fallback" };\<close>
\<close>

definition bareResolution :: "string option \<Rightarrow> ResolutionSource \<Rightarrow> TokenResolution" where
  "bareResolution address src =
     \<lparr>projectName = None, description = None, logoUrl = None,
      token_contractAddress = address, websiteUrl = None, socialLinks = None,
      pairCreatedAt = None, resolutionSource = src\<rparr>"

definition resolveToken :: "Services \<Rightarrow> string option \<Rightarrow> string option \<Rightarrow> thrown + TokenResolution" where
  "resolveToken env tick address =
     (let byTicker =
            (case truthyString tick of
               None \<Rightarrow> None
             | Some t \<Rightarrow>
                 (case retried (searchDexScreener env t) (retryTwice ''dexscreener-search'') of
                    Inr (Some resolution) \<Rightarrow> Some resolution
                  | Inr None \<Rightarrow> None
                  | Inl err \<Rightarrow> None))
      in case byTicker of
           Some resolution \<Rightarrow> Inr resolution
         | None \<Rightarrow>
             (case truthyString address of
                Some a \<Rightarrow>
                  (case retried (lookupByAddress env a) (retryTwice ''dexscreener-address'') of
                     Inr (Some resolution) \<Rightarrow> Inr resolution
                   | Inr None \<Rightarrow> Inr (bareResolution (Some a) User)
                   | Inl err \<Rightarrow> Inr (bareResolution (Some a) User))
              | None \<Rightarrow> Inr (bareResolution None Fallback)))"

section \<open>Website scraper (modules/websiteScraper)\<close>

text \<open>
  \<^verbatim>\<open>if (!websiteUrl) return { found: false };
  try {
      const html = await withRetry(() => fetchPage(websiteUrl),
          { label: "website-scrape", maxRetries: 2 });
      const extractedText = extractContent(html);
      if (!extractedText || extractedText.length < 20) return { found: false };
      return { extractedText, found: true };
  } catch (err) { return { found: false }; }\<close>
\<close>

definition scrapeWebsite :: "Services \<Rightarrow> string option \<Rightarrow> thrown + WebsiteScrapeResult" where
  "scrapeWebsite env url =
     (case truthyString url of
        None \<Rightarrow> Inr \<lparr>extractedText = None, found = False\<rparr>
      | Some u \<Rightarrow>
          (case retried (fetchPage env u) (retryTwice ''website-scrape'') of
             Inl err \<Rightarrow> Inr \<lparr>extractedText = None, found = False\<rparr>
           | Inr html \<Rightarrow>
               (let content = extractContent env html
                in if content = [] \<or> length content < 20
                   then Inr \<lparr>extractedText = None, found = False\<rparr>
                   else Inr \<lparr>extractedText = Some content, found = True\<rparr>)))"

section \<open>Asset uploader and logo manager (modules/assetUploader, modules/logoManager)\<close>

text \<open>
  \<^verbatim>\<open>const bucket = process.env.S3_BUCKET;
  if (!bucket) return `https://placeholder.s3.amazonaws.com/${key}`;
  await client.send(new PutObjectCommand({ Bucket: bucket, Key: key, Body: buffer,
      ContentType: contentType }));
  const publicUrl = process.env.S3_PUBLIC_URL
      ? `${process.env.S3_PUBLIC_URL}/${key}` : `https://${bucket}.s3.amazonaws.com/${key}`;
  return publicUrl;\<close>
\<close>

definition uploadBuffer :: "Services \<Rightarrow> string \<Rightarrow> Buffer \<Rightarrow> string \<Rightarrow> thrown + string" where
  "uploadBuffer env key buffer contentType =
     (case truthyString (S3_BUCKET env) of
        None \<Rightarrow> Inr (''https://placeholder.s3.amazonaws.com/'' @ key)
      | Some bucket \<Rightarrow>
          await (s3Send env bucket key buffer contentType) (\<lambda>sent.
            Inr (case truthyString (S3_PUBLIC_URL env) of
                   Some base \<Rightarrow> base @ ''/'' @ key
                 | None \<Rightarrow> ''https://'' @ bucket @ ''.s3.amazonaws.com/'' @ key)))"

text \<open>
  \<^verbatim>\<open>try { ... return { primary, secondary }; }
  catch (err) { return { primary: "#6366f1", secondary: "#8b5cf6" }; }\<close>
\<close>

definition extractColors :: "Services \<Rightarrow> Buffer \<Rightarrow> BrandColors" where
  "extractColors env pngBuffer =
     (case colorThief env pngBuffer of
        Inr colors \<Rightarrow> colors
      | Inl err \<Rightarrow> \<lparr>primary = ''#6366f1'', secondary = ''#8b5cf6''\<rparr>)"

text \<open>
  \<^verbatim>\<open>if (logoUrl) {
      try { logoBuffer = await withRetry(() => downloadImage(logoUrl),
                { label: "logo-download", maxRetries: 2 }); }
      catch (err) { logoBuffer = await createPlaceholderLogo(ticker); }
  } else { logoBuffer = await createPlaceholderLogo(ticker); }
  const pngBuffer = await sharp(logoBuffer).png().toBuffer();
  const brandColors = await extractColors(pngBuffer);
  const key = `logos/${ticker.toLowerCase()}-${Date.now()}.png`;
  const finalLogoUrl = await uploadBuffer(key, pngBuffer, "image/png");
  return { finalLogoUrl, brandColors };\<close>
\<close>

definition manageLogo :: "Services \<Rightarrow> string \<Rightarrow> string option \<Rightarrow> thrown + LogoResult" where
  "manageLogo env tick url =
     await
       (case truthyString url of
          Some u \<Rightarrow>
            (case retried (downloadImage env u) (retryTwice ''logo-download'') of
               Inr downloaded \<Rightarrow> Inr downloaded
             | Inl err \<Rightarrow> createPlaceholderLogo env tick)
        | None \<Rightarrow> createPlaceholderLogo env tick)
       (\<lambda>logoBuffer.
     await (sharpPng env logoBuffer) (\<lambda>pngBuffer.
     let colors = extractColors env pngBuffer;
         key = ''logos/'' @ toLowerCase tick @ ''-'' @ decimal (dateNow env) @ ''.png''
     in await (uploadBuffer env key pngBuffer ''image/png'') (\<lambda>uploaded.
          Inr \<lparr>finalLogoUrl = uploaded, brandColors = colors\<rparr>)))"

section \<open>Post generator (modules/postGenerator)\<close>

text \<open>
  \<^verbatim>\<open>const client = new OpenAI({ apiKey: process.env.OPENAI_API_KEY });
  const result = await withRetry(async () => {
      const completion = await client.chat.completions.create({ ... });
      const text = completion.choices[0]?.message?.content || "";
      return parseResponse(text, brief.ticker, tone);
  }, { label: "openai-post-gen", maxRetries: 2 });
  return result;\<close>
  There is no \<open>try\<close> around \<open>withRetry\<close> here: when the last attempt fails, the stage
  rejects with that error.
\<close>

definition generatePosts ::
  "Services \<Rightarrow> CreativeBrief \<Rightarrow> ToneProfile \<Rightarrow> WebsiteScrapeResult \<Rightarrow> thrown + PostGenerationResult" where
  "generatePosts env brief tone site =
     await (newOpenAI env) (\<lambda>client.
       retried (chatCompletion env brief tone site) (retryTwice ''openai-post-gen''))"


section \<open>Banner generator (modules/bannerGenerator)\<close>

definition buildDallePrompt :: "VisualThemes \<Rightarrow> CreativeBrief \<Rightarrow> ToneProfile \<Rightarrow> string" where
  "buildDallePrompt themes brief tone =
     image_prompt themes @ ''. '' @ [CHR 0x0A]
       @ ''Style: '' @ tone_theme tone @ '' aesthetic, '' @ profileName tone @ '' tone. ''
       @ [CHR 0x0A]
       @ ''Brand colors: '' @ primary (brief_brandColors brief) @ '' and ''
       @ secondary (brief_brandColors brief) @ ''. '' @ [CHR 0x0A]
       @ ''Project: '' @ brief_projectName brief @ ''. '' @ [CHR 0x0A]
       @ ''Ultra high resolution, cinematic, no text, no typography, no letters, no words.''"

text \<open>
  \<^verbatim>\<open>const buffer = await sharp(Buffer.from(svg)).jpeg({ quality: 90 }).toBuffer();
  const key = `banners/fallback-${ticker.toLowerCase()}-${Date.now()}.jpg`;
  return uploadBuffer(key, buffer, "image/jpeg");\<close>
\<close>

definition generateFallbackBackground :: "Services \<Rightarrow> string \<Rightarrow> BrandColors \<Rightarrow> thrown + string" where
  "generateFallbackBackground env tick colors =
     await (sharpGradient env tick colors) (\<lambda>buffer.
       uploadBuffer env
         (''banners/fallback-'' @ toLowerCase tick @ ''-'' @ decimal (dateNow env) @ ''.jpg'')
         buffer ''image/jpeg'')"

text \<open>
  \<^verbatim>\<open>const res = await axios.get(imageUrl, { responseType: "arraybuffer", timeout: 30000 });
  const buffer = await sharp(Buffer.from(res.data)).resize(1200, 628, { fit: "cover" })
      .jpeg({ quality: 90 }).toBuffer();
  const key = `banners/${ticker.toLowerCase()}-${Date.now()}.jpg`;
  return uploadBuffer(key, buffer, "image/jpeg");\<close>
\<close>

definition finalizeAndUpload :: "Services \<Rightarrow> string \<Rightarrow> string \<Rightarrow> thrown + string" where
  "finalizeAndUpload env imageUrl tick =
     await (axiosGet env imageUrl) (\<lambda>body.
     await (sharpResizeJpeg env body) (\<lambda>buffer.
       uploadBuffer env
         (''banners/'' @ toLowerCase tick @ ''-'' @ decimal (dateNow env) @ ''.jpg'')
         buffer ''image/jpeg''))"

text \<open>
  \<^verbatim>\<open>let bgUrl;
  try { const dallePrompt = buildDallePrompt(visualThemes, brief, tone);
        bgUrl = await withRetry(() => generateBackground(dallePrompt),
            { label: "dalle-bg-gen", maxRetries: 2 }); }
  catch (err) { bgUrl = await generateFallbackBackground(ticker, logo.brandColors); }
  let compositeUrl;
  try { compositeUrl = await withRetry(() => compositeViaShotstack(bgUrl, logo.finalLogoUrl,
            tagline, logo.brandColors), { label: "shotstack-banner", maxRetries: 2 }); }
  catch (err) { compositeUrl = bgUrl; }
  const finalUrl = await finalizeAndUpload(compositeUrl, ticker);
  return { heroBannerUrl: finalUrl };\<close>
\<close>

definition generateBanner ::
  "Services \<Rightarrow> string \<Rightarrow> VisualThemes \<Rightarrow> LogoResult \<Rightarrow> string \<Rightarrow> CreativeBrief \<Rightarrow> ToneProfile
     \<Rightarrow> thrown + BannerResult" where
  "generateBanner env tick themes logo tagline brief tone =
     await
       (case retried (generateBackground env (buildDallePrompt themes brief tone))
               (retryTwice ''dalle-bg-gen'') of
          Inr generated \<Rightarrow> Inr generated
        | Inl err \<Rightarrow> generateFallbackBackground env tick (brandColors logo))
       (\<lambda>bgUrl.
     let compositeUrl =
           (case retried (compositeViaShotstack env bgUrl (finalLogoUrl logo) tagline
                            (brandColors logo)) (retryTwice ''shotstack-banner'') of
              Inr composed \<Rightarrow> composed
            | Inl err \<Rightarrow> bgUrl)
     in await (finalizeAndUpload env compositeUrl tick) (\<lambda>finalUrl.
          Inr \<lparr>heroBannerUrl = finalUrl\<rparr>))"

section \<open>Video generator (modules/videoGenerator)\<close>

text \<open>
  The sources hold the video generator of the TypeScript version, of the signature
  \<open>generateVideo(ticker, visualThemes, logo, bannerUrl, style)\<close>, which the TypeScript
  orchestrator calls. Of the compiled one that \<open>core/orchestrator.js\<close> imports, with
  \<open>brief\<close>, \<open>tone\<close> and \<open>ctaText\<close>, they hold the declaration only
  (\<open>modules/videoGenerator.d.ts\<close>, which documents two clips). This section is the
  TypeScript one, which attempts three clips.
  \<^verbatim>\<open>const apiKey = process.env.SHOTSTACK_API_KEY;
  if (!apiKey) return bannerUrl;
  try { ... return await pollShotstackRender(renderId, apiKey); }
  catch (err) { return bannerUrl; }\<close>
\<close>

definition generateFallbackVideo :: "Services \<Rightarrow> string \<Rightarrow> string \<Rightarrow> LogoResult \<Rightarrow> string \<Rightarrow> string" where
  "generateFallbackVideo env tick bannerUrl logo style =
     (case truthyString (SHOTSTACK_API_KEY env) of
        None \<Rightarrow> bannerUrl
      | Some apiKey \<Rightarrow>
          (case renderFallbackVideo env tick bannerUrl style of
             Inr rendered \<Rightarrow> rendered
           | Inl err \<Rightarrow> bannerUrl))"

text \<open>
  \<^verbatim>\<open>try { const res = await axios.get(videoUrl, ...);
        const key = `videos/${ticker.toLowerCase()}-${Date.now()}.mp4`;
        return await uploadBuffer(key, Buffer.from(res.data), "video/mp4"); }
  catch (err) { return videoUrl; }\<close>
\<close>

definition finalizeAndUploadVideo :: "Services \<Rightarrow> string \<Rightarrow> string \<Rightarrow> string" where
  "finalizeAndUploadVideo env videoUrl tick =
     (case await (axiosGet env videoUrl) (\<lambda>body.
             uploadBuffer env
               (''videos/'' @ toLowerCase tick @ ''-'' @ decimal (dateNow env) @ ''.mp4'')
               body ''video/mp4'') of
        Inr uploaded \<Rightarrow> uploaded
      | Inl err \<Rightarrow> videoUrl)"

text \<open>
  \<^verbatim>\<open>const clipPrompts = [visualThemes.clip1_prompt, visualThemes.clip2_prompt,
      visualThemes.clip3_prompt];
  const clipResults = await Promise.allSettled(clipPrompts.map((prompt, i) =>
      withRetry(() => generateRunwayClip(prompt),
          { label: `runway-clip-${i + 1}`, maxRetries: 1 })));
  const clips = clipResults.map((r, i) => r.status === "fulfilled" ? r.value : null);
  const successfulClips = clips.filter((c) => c !== null);
  const clipsSucceeded = successfulClips.length;
  if (clipsSucceeded === 0) {
      const fallbackUrl = await generateFallbackVideo(ticker, bannerUrl, logo, style);
      return { launchVideoUrl: fallbackUrl, clipsSucceeded: 0 };
  }
  let videoUrl;
  try { videoUrl = await withRetry(() => stitchViaShotstack(successfulClips, ticker,
            logo.brandColors, style), { label: "shotstack-video-stitch", maxRetries: 2 }); }
  catch (err) { videoUrl = successfulClips[0]; }
  const finalUrl = await finalizeAndUploadVideo(videoUrl, ticker);
  return { launchVideoUrl: finalUrl, clipsSucceeded };\<close>
\<close>

definition generateVideo ::
  "Services \<Rightarrow> string \<Rightarrow> VisualThemes \<Rightarrow> LogoResult \<Rightarrow> string \<Rightarrow> string \<Rightarrow> thrown + VideoResult" where
  "generateVideo env tick themes logo bannerUrl style =
     (let clipPrompts = [clip1_prompt themes, clip2_prompt themes, clip3_prompt themes];
          clipResults =
            map (\<lambda>(i, prompt).
                   retried (generateRunwayClip env prompt)
                     \<lparr>maxRetries = Some 1, baseDelayMs = None,
                      label = Some (''runway-clip-'' @ decimal (int i + 1))\<rparr>)
              (enumerate 0 clipPrompts);
          successfulClips =
            concat (map (\<lambda>r. case r of Inr clip \<Rightarrow> [clip] | Inl reason \<Rightarrow> []) clipResults)
      in case successfulClips of
           [] \<Rightarrow>
             Inr \<lparr>launchVideoUrl = generateFallbackVideo env tick bannerUrl logo style,
                  clipsSucceeded = 0\<rparr>
         | firstClip # otherClips \<Rightarrow>
             (let videoUrl =
                    (case retried (stitchViaShotstack env successfulClips tick (brandColors logo)
                                     style) (retryTwice ''shotstack-video-stitch'') of
                       Inr stitched \<Rightarrow> stitched
                     | Inl err \<Rightarrow> firstClip)
              in Inr \<lparr>launchVideoUrl = finalizeAndUploadVideo env videoUrl tick,
                      clipsSucceeded = length successfulClips\<rparr>))"

section \<open>Orchestrator of the TypeScript version (core/orchestrator.ts)\<close>

text \<open>
  The TypeScript orchestrator awaits the same six stages one after the other, with no
  \<open>try\<close>. Its post generator takes the job input, the scrape result and the brand
  colours; its banner generator takes four arguments; its video generator takes the
  address of the banner and the style of the job:
  \<^verbatim>\<open>const posts = await generatePosts(input, website, logo.brandColors);
  const tagline = extractTagline(posts.posts[0], ticker);
  const banner = await generateBanner(ticker, posts.visualThemes, logo, tagline);
  const video = await generateVideo(ticker, posts.visualThemes, logo,
      banner.heroBannerUrl, input.style);
  if (video.clipsSucceeded < 2) fallbacksUsed = true;
  const factors: ConfidenceFactors = { websiteFound: website.found, officialLogo,
      allClipsSucceeded: video.clipsSucceeded === 2, noFallbacksUsed: !fallbacksUsed };\<close>
  The token, the scrape, the logo, \<open>officialLogo\<close>, \<open>extractTagline\<close>,
  \<open>determineDataSource\<close> and the rounding of the elapsed time are as in the compiled
  orchestrator.
\<close>

record CollaboratorsTs =
  ts_resolveToken :: "string option \<Rightarrow> string option \<Rightarrow> thrown + TokenResolution"
  ts_scrapeWebsite :: "string option \<Rightarrow> thrown + WebsiteScrapeResult"
  ts_manageLogo :: "string \<Rightarrow> string option \<Rightarrow> thrown + LogoResult"
  ts_generatePosts ::
    "GenerateJobInputTs \<Rightarrow> WebsiteScrapeResult \<Rightarrow> BrandColors \<Rightarrow> thrown + PostGenerationResult"
  ts_generateBanner ::
    "string \<Rightarrow> VisualThemes \<Rightarrow> LogoResult \<Rightarrow> string \<Rightarrow> thrown + BannerResult"
  ts_generateVideo ::
    "string \<Rightarrow> VisualThemes \<Rightarrow> LogoResult \<Rightarrow> string \<Rightarrow> string \<Rightarrow> thrown + VideoResult"
  ts_elapsedMs :: int

definition runPipelineTs ::
  "CollaboratorsTs \<Rightarrow> GenerateJobInputTs \<Rightarrow> thrown + (GenerateJobOutputTs \<times> PipelineLog)" where
  "runPipelineTs c input =
     await (ts_resolveToken c (ts_ticker input) (ts_contractAddress input)) (\<lambda>token.
     let fallbacksUsed = (resolutionSource token = Fallback) in
     await (ts_scrapeWebsite c (websiteUrl token)) (\<lambda>site.
     let tick = orElse (ts_ticker input) ''TOKEN'' in
     await (ts_manageLogo c tick (logoUrl token)) (\<lambda>logo.
     let official = (truthyString (logoUrl token) \<noteq> None
                      \<and> (resolutionSource token = Coingecko
                           \<or> resolutionSource token = Dexscreener))
     in
     await (ts_generatePosts c input site (brandColors logo)) (\<lambda>generated.
     let post1 = fst (posts generated);
         post2 = fst (snd (posts generated));
         post3 = snd (snd (posts generated));
         tagline = extractTagline post1 tick
     in
     await (ts_generateBanner c tick (visualThemes generated) logo tagline) (\<lambda>banner.
     await (ts_generateVideo c tick (visualThemes generated) logo (heroBannerUrl banner)
              (ts_style input))
       (\<lambda>video.
     let fallbacksUsed = (fallbacksUsed \<or> clipsSucceeded video < 2);
         factors = \<lparr>websiteFound = found site,
                    officialLogo = official,
                    allClipsSucceeded = (clipsSucceeded video = 2),
                    noFallbacksUsed = \<not> fallbacksUsed\<rparr>;
         confidenceLevel = computeConfidence factors;
         generationTimeSec = (of_int (ts_elapsedMs c) :: rat) / 1000;
         dataSource = determineDataSource (found site) (resolutionSource token)
     in Inr (\<lparr>ts_hero_banner_url = heroBannerUrl banner,
               ts_launch_video_url = launchVideoUrl video,
               ts_x_post_1 = post1,
               ts_x_post_2 = post2,
               ts_x_post_3 = post3,
               ts_brand_colors = brandColors logo,
               ts_confidence_level = confidenceLevel,
               ts_generation_time_sec = of_int \<lfloor>generationTimeSec * 100 + 1 / 2\<rfloor> / 100,
               ts_data_source = dataSource\<rparr>,
             \<lparr>logged_token = token,
               logged_website = site,
               logged_logo = logo,
               logged_video = video,
               logged_factors = factors\<rparr>)))))))"

section \<open>The pipelines over the stages of the sources\<close>

text \<open>
  The compiled orchestrator with the stages as the sources define them. The video
  generator it imports is not among the sources, which hold its declaration only: the
  video stage stays a parameter. Of the website scraper the sources hold the compiled
  declaration and the TypeScript code, of the same signature; the other four stages are
  the compiled modules.
\<close>

definition sourceStages ::
  "Services
     \<Rightarrow> (string \<Rightarrow> VisualThemes \<Rightarrow> LogoResult \<Rightarrow> string \<Rightarrow> CreativeBrief \<Rightarrow> ToneProfile
          \<Rightarrow> string option \<Rightarrow> thrown + VideoResult)
     \<Rightarrow> Collaborators" where
  "sourceStages env video =
     \<lparr>call_resolveToken = resolveToken env,
      call_scrapeWebsite = scrapeWebsite env,
      call_manageLogo = manageLogo env,
      call_generatePosts = generatePosts env,
      call_generateBanner = generateBanner env,
      call_generateVideo = video,
      clock_dateNow = dateNow env,
      clock_elapsedMs = timerElapsedMs env\<rparr>"


section \<open>Example runs\<close>

text \<open>
  A world where every remote service is down: the token index, web pages, the text and
  image models, the renderer and downloads all fail, on every attempt. No bucket is
  configured, so \<open>uploadBuffer\<close> answers its placeholder address without a remote
  call; the image routines, which run in the process, work.
\<close>

definition down :: "thrown + 'a" where
  "down = Inl (Some ''ECONNREFUSED'')"

definition offline :: Services where
  "offline =
     \<lparr>searchDexScreener = (\<lambda>t calls. down),
      lookupByAddress = (\<lambda>a calls. down),
      fetchPage = (\<lambda>u calls. down),
      extractContent = (\<lambda>html. html),
      downloadImage = (\<lambda>u calls. down),
      createPlaceholderLogo = (\<lambda>t. Inr ''placeholder-logo''),
      sharpPng = (\<lambda>b. Inr b),
      colorThief = (\<lambda>b. Inr \<lparr>primary = ''#6366f1'', secondary = ''#8b5cf6''\<rparr>),
      S3_BUCKET = None,
      S3_PUBLIC_URL = None,
      s3Send = (\<lambda>bucket key body contentType. down),
      dateNow = 1700000000000,
      timerElapsedMs = 61234,
      newOpenAI = Inr (),
      chatCompletion = (\<lambda>brief tone site calls. down),
      chatCompletionTs = (\<lambda>input site colors calls. down),
      generateBackground = (\<lambda>prompt calls. down),
      sharpGradient = (\<lambda>t colors. Inr ''gradient''),
      compositeViaShotstack = (\<lambda>bg logo tagline colors calls. down),
      axiosGet = (\<lambda>u. down),
      sharpResizeJpeg = (\<lambda>b. Inr b),
      generateRunwayClip = (\<lambda>prompt calls. down),
      stitchViaShotstack = (\<lambda>clips t colors style calls. down),
      SHOTSTACK_API_KEY = None,
      renderFallbackVideo = (\<lambda>t banner style. down)\<rparr>"

definition tickerOnly :: GenerateJobInput where
  "tickerOnly = \<lparr>ticker = Some ''DOGE'', contractAddress = None, intent = None, theme = None\<rparr>"

text \<open>
  An answer of the text model, as \<open>parseResponse\<close> hands it on, for the worlds below in
  which the model answers: three posts and the visual themes, with the three clip prompts.
\<close>

definition answeredPosts :: "string \<Rightarrow> PostGenerationResult" where
  "answeredPosts tick =
     \<lparr>posts =
        (''$'' @ tick @ '' just entered the chat and the energy is unmatched. #crypto'',
         ''We have seen a hundred launches. $'' @ tick @ '' hits different. #altcoins'',
         ''Why $'' @ tick @ '' is the play right now: the narrative is shifting. #alpha''),
      visualThemes =
        \<lparr>mood = ''Intense '' @ tick @ '' launch energy'',
         color_cues = ''Electric blue, deep purple, neon accents'',
         lighting_style = ''Cinematic volumetric lighting with lens flares'',
         motion_style = ''Smooth zoom transitions with particle dispersal'',
         texture_keywords = [''metallic'', ''holographic'', ''circuit-board''],
         clip1_prompt = ''Dark cosmic atmosphere with floating '' @ tick @ '' particles'',
         clip2_prompt = tick @ '' ticker exploding with golden light energy'',
         clip3_prompt = tick @ '' logo crystallizing with tagline fade-in'',
         image_prompt = ''Futuristic crypto launch banner for '' @ tick\<rparr>\<rparr>"

text \<open>
  A world where the text model alone answers: the posts stage returns, and the banner
  stage is reached with every other service down.
\<close>

definition textOnline :: Services where
  "textOnline =
     offline
       \<lparr>chatCompletion := (\<lambda>brief tone site calls. Inr (answeredPosts (brief_ticker brief)))\<rparr>"

text \<open>
  A world where the text model answers and downloads succeed, the token index, web pages,
  the image model and the renderer being down: the banner stage falls back to its
  gradient and returns. \<open>laterOnline\<close> is the same world with a later clock.
\<close>

definition downloadsOnline :: Services where
  "downloadsOnline = textOnline\<lparr>axiosGet := (\<lambda>u. Inr ''bytes'')\<rparr>"

definition laterOnline :: Services where
  "laterOnline = downloadsOnline\<lparr>dateNow := 1700000000999\<rparr>"

text \<open>
  A video stage for the example runs of the compiled orchestrator, whose own generator is
  not among the sources: it produces no clip and answers the address it was given as
  \<open>bannerUrl\<close>. The theorems about the compiled orchestrator hold for every video stage.
\<close>

definition stillVideo ::
  "string \<Rightarrow> VisualThemes \<Rightarrow> LogoResult \<Rightarrow> string \<Rightarrow> CreativeBrief \<Rightarrow> ToneProfile \<Rightarrow> string option
     \<Rightarrow> thrown + VideoResult" where
  "stillVideo tick themes logo bannerUrl brief tone ctaText =
     Inr \<lparr>launchVideoUrl = bannerUrl, clipsSucceeded = 0\<rparr>"





text \<open>
  The placeholder logo of a job for \<open>doge\<close>, as the logo stage returns it when nothing
  can be downloaded.
\<close>

definition fallbackLogo :: LogoResult where
  "fallbackLogo =
     \<lparr>finalLogoUrl = ''https://placeholder.s3.amazonaws.com/logos/doge-1700000000000.png'',
      brandColors = \<lparr>primary = ''#6366f1'', secondary = ''#8b5cf6''\<rparr>\<rparr>"

text \<open>An operation for the examples: every call fails with a connection error.\<close>

definition alwaysDown :: "nat \<Rightarrow> (string option + nat) \<times> nat" where
  "alwaysDown n = (Inl (Some ''ECONNRESET''), Suc n)"

section \<open>Theorems\<close>

subsection \<open>C2: the confidence score\<close>

lemma trueFactors_range: "0 \<le> trueFactors f \<and> trueFactors f \<le> 4"
  by (simp add: trueFactors_def)

lemma computeConfidence_count: "computeConfidence f = max 1 (trueFactors f)"
  by (simp add: computeConfidence_def trueFactors_def Let_def)

text \<open>
  C2. For every combination of the four factors the score is the number of true factors
  clamped to the range 1..4: it is that number when at least one factor is true (the
  number is positive exactly then), it is 1 when all four are false, it lies between 1
  and 4, and setting any single factor to true never lowers it.
\<close>

theorem computeConfidence_clamp:
  "computeConfidence f = clamp (trueFactors f) 1 4
   \<and> computeConfidence f = (if 0 < trueFactors f then trueFactors f else 1)
   \<and> (0 < trueFactors f) = (websiteFound f \<or> officialLogo f \<or> allClipsSucceeded f \<or> noFallbacksUsed f)
   \<and> computeConfidence \<lparr>websiteFound = False, officialLogo = False,
         allClipsSucceeded = False, noFallbacksUsed = False\<rparr> = 1
   \<and> 1 \<le> computeConfidence f \<and> computeConfidence f \<le> 4
   \<and> computeConfidence f \<le> computeConfidence (f\<lparr>websiteFound := True\<rparr>)
   \<and> computeConfidence f \<le> computeConfidence (f\<lparr>officialLogo := True\<rparr>)
   \<and> computeConfidence f \<le> computeConfidence (f\<lparr>allClipsSucceeded := True\<rparr>)
   \<and> computeConfidence f \<le> computeConfidence (f\<lparr>noFallbacksUsed := True\<rparr>)"
proof -
  have range: "0 \<le> trueFactors f \<and> trueFactors f \<le> 4"
    by (rule trueFactors_range)
  have count: "computeConfidence f = max 1 (trueFactors f)"
    by (rule computeConfidence_count)
  have pos: "(0 < trueFactors f) = (websiteFound f \<or> officialLogo f \<or> allClipsSucceeded f \<or> noFallbacksUsed f)"
    by (simp add: trueFactors_def)
  have mono: "trueFactors f \<le> trueFactors (f\<lparr>websiteFound := True\<rparr>)"
    "trueFactors f \<le> trueFactors (f\<lparr>officialLogo := True\<rparr>)"
    "trueFactors f \<le> trueFactors (f\<lparr>allClipsSucceeded := True\<rparr>)"
    "trueFactors f \<le> trueFactors (f\<lparr>noFallbacksUsed := True\<rparr>)"
    by (simp_all add: trueFactors_def)
  have zero: "computeConfidence \<lparr>websiteFound = False, officialLogo = False,
         allClipsSucceeded = False, noFallbacksUsed = False\<rparr> = 1"
    by (simp add: computeConfidence_def)
  from range count have "computeConfidence f = clamp (trueFactors f) 1 4"
    by (simp add: clamp_def)
  moreover from range count
  have "computeConfidence f = (if 0 < trueFactors f then trueFactors f else 1)"
    by simp
  moreover from range count have "1 \<le> computeConfidence f \<and> computeConfidence f \<le> 4"
    by simp
  moreover from mono have "computeConfidence f \<le> computeConfidence (f\<lparr>websiteFound := True\<rparr>)"
    "computeConfidence f \<le> computeConfidence (f\<lparr>officialLogo := True\<rparr>)"
    "computeConfidence f \<le> computeConfidence (f\<lparr>allClipsSucceeded := True\<rparr>)"
    "computeConfidence f \<le> computeConfidence (f\<lparr>noFallbacksUsed := True\<rparr>)"
    by (simp_all add: computeConfidence_count)
  ultimately show ?thesis using pos zero by blast
qed

subsection \<open>C4: the provenance tag\<close>

text \<open>
  C4. For every pair of the website flag and the resolution source, the tag is
  \<open>Website\<close> exactly when the website was found and the source is a primary one,
  \<open>ThematicOnly\<close> exactly when no website was found and the source is the full fallback,
  and \<open>Mixed\<close> in every other case, for instance a website with a user-provided address
  or no website with a primary source.
\<close>

theorem determineDataSource_cases:
  "(determineDataSource w s = Website) = (w \<and> primarySource s)
   \<and> (determineDataSource w s = ThematicOnly) = (\<not> w \<and> s = Fallback)
   \<and> (determineDataSource w s = Mixed) = (\<not> (w \<and> primarySource s) \<and> \<not> (\<not> w \<and> s = Fallback))
   \<and> determineDataSource True User = Mixed
   \<and> determineDataSource False Dexscreener = Mixed
   \<and> determineDataSource False Coingecko = Mixed
   \<and> determineDataSource True Fallback = Mixed"
  by (cases s) (auto simp: determineDataSource_def primarySource_def)

subsection \<open>C7: utility classification\<close>

lemma fold_count:
  "fold (\<lambda>s hits. if P s then hits + 1 else hits) xs (n::nat) = n + length (filter P xs)"
  by (induction xs arbitrary: n) auto

lemma countHits_filter: "countHits sigs text = length (filter (includesText text) sigs)"
  by (simp add: countHits_def fold_count)

lemma countHits_pos: "(0 < countHits sigs text) = (\<exists>k. k \<in> set sigs \<and> includesText text k)"
  by (auto simp: countHits_filter filter_empty_conv)

lemma includesText_lower:
  "includesText (toLowerCase text) k = occursIgnoringCase k text"
proof
  assume "includesText (toLowerCase text) k"
  then obtain ps ss where "map toLowerChar text = ps @ k @ ss"
    by (auto simp: includesText_def sublist_def toLowerCase_def)
  then obtain us vs where a: "text = us @ vs" "ps = map toLowerChar us" "k @ ss = map toLowerChar vs"
    by (auto simp: map_eq_append_conv)
  from a(3) obtain ws xs where b: "vs = ws @ xs" "k = map toLowerChar ws"
    by (auto simp: append_eq_map_conv)
  from a(1) b show "occursIgnoringCase k text"
    by (auto simp: occursIgnoringCase_def toLowerCase_def)
next
  assume "occursIgnoringCase k text"
  then obtain b p a where "text = b @ p @ a" "toLowerCase p = k"
    by (auto simp: occursIgnoringCase_def)
  then have "toLowerCase text = toLowerCase b @ k @ toLowerCase a"
    by (auto simp: toLowerCase_def)
  then show "includesText (toLowerCase text) k"
    unfolding includesText_def sublist_def by blast
qed

lemma countHits_any:
  "(0 < countHits sigs (toLowerCase text)) = anyKeyword sigs text"
  by (simp add: countHits_pos includesText_lower anyKeyword_def)

text \<open>
  C7. For every description and project name, the classifier scans the concatenated
  name and description, without regard to case, for the keywords of the two fixed sets
  as contiguous pieces of the text. It answers \<open>Protocol\<close> exactly when only protocol
  keywords occur, \<open>Culture\<close> exactly when only culture keywords occur, and \<open>Hybrid\<close> both
  when keywords of both sets occur (whichever count is larger) and when none occurs.
\<close>

theorem classifyUtility_cases:
  "(classifyUtility descr projName = Protocol) =
     (anyKeyword PROTOCOL_SIGNALS (projName @ '' '' @ descr)
      \<and> \<not> anyKeyword CULTURE_SIGNALS (projName @ '' '' @ descr))
   \<and> (classifyUtility descr projName = Culture) =
     (anyKeyword CULTURE_SIGNALS (projName @ '' '' @ descr)
      \<and> \<not> anyKeyword PROTOCOL_SIGNALS (projName @ '' '' @ descr))
   \<and> (classifyUtility descr projName = Hybrid) =
     ((anyKeyword PROTOCOL_SIGNALS (projName @ '' '' @ descr)
       \<and> anyKeyword CULTURE_SIGNALS (projName @ '' '' @ descr))
      \<or> (\<not> anyKeyword PROTOCOL_SIGNALS (projName @ '' '' @ descr)
       \<and> \<not> anyKeyword CULTURE_SIGNALS (projName @ '' '' @ descr)))"
proof -
  let ?t = "projName @ '' '' @ descr"
  have p: "(0 < countHits PROTOCOL_SIGNALS (toLowerCase ?t)) = anyKeyword PROTOCOL_SIGNALS ?t"
    by (rule countHits_any)
  have c: "(0 < countHits CULTURE_SIGNALS (toLowerCase ?t)) = anyKeyword CULTURE_SIGNALS ?t"
    by (rule countHits_any)
  show ?thesis
    unfolding classifyUtility_def Let_def p c by auto
qed

subsection \<open>C5: intent resolution\<close>

lemma toLowerChar_idem: "toLowerChar (toLowerChar c) = toLowerChar c"
  by (simp add: toLowerChar_def Let_def)

lemma toLowerCase_idem: "toLowerCase (toLowerCase s) = toLowerCase s"
  by (simp add: toLowerCase_def toLowerChar_idem)

text \<open>
  C5. A user-supplied intent that is present (a non-empty string) is the resolved
  intent whatever the token age is, in the lower-case form the program gives it; an
  intent that input validation has already lower-cased comes back as it is. With no
  user intent (absent, or the empty string), an age that is known and strictly below
  86400 seconds resolves to \<open>launch\<close> (so 86399 does), and an age of 86400 or more (so
  86401) or an unknown age resolves to \<open>hype\<close>.
\<close>

theorem resolveIntent_cases:
  "resolveIntent (Some (c # cs)) age = toLowerCase (c # cs)
   \<and> resolveIntent (Some (toLowerCase (c # cs))) age = toLowerCase (c # cs)
   \<and> resolveIntent None (Some n) = (if n < 86400 then ''launch'' else ''hype'')
   \<and> resolveIntent None None = ''hype''
   \<and> resolveIntent (Some []) a = resolveIntent None a
   \<and> resolveIntent None (Some 86399) = ''launch''
   \<and> resolveIntent None (Some 86400) = ''hype''
   \<and> resolveIntent None (Some 86401) = ''hype''"
  by (simp add: resolveIntent_def truthyString_def TWENTY_FOUR_HOURS_SEC_def toLowerCase_idem)
    (simp add: toLowerCase_def)

subsection \<open>C6: theme and profile name\<close>

lemma PROFILE_NAMES_keys:
  "PROFILE_NAMES = map (\<lambda>((u, i, t), n). (profileKey u i t, n)) PROFILE_TABLE"
  by (simp add: PROFILE_NAMES_def PROFILE_TABLE_def profileKey_def)

lemma colon_split:
  assumes "i @ CHR '':'' # t = i0 @ CHR '':'' # t0"
    and "CHR '':'' \<notin> set i0" and "CHR '':'' \<notin> set t0"
  shows "i = i0 \<and> t = t0"
proof -
  from assms(1) consider us where "i = i0 @ us" "us @ CHR '':'' # t = CHR '':'' # t0"
    | us where "i @ us = i0" "CHR '':'' # t = us @ CHR '':'' # t0"
    by (auto simp: append_eq_append_conv2)
  then show ?thesis
  proof cases
    case 1
    show ?thesis
    proof (cases us)
      case Nil
      with 1 show ?thesis by simp
    next
      case (Cons x xs)
      with 1 have "t0 = xs @ CHR '':'' # t" by simp
      with assms(3) show ?thesis by simp
    qed
  next
    case 2
    show ?thesis
    proof (cases us)
      case Nil
      with 2 show ?thesis by simp
    next
      case (Cons x xs)
      with 2 have "x = CHR '':''" by simp
      with 2 Cons assms(2) show ?thesis by auto
    qed
  qed
qed

lemma utilityClassName_split:
  "utilityClassName u @ CHR '':'' # r = utilityClassName u0 @ CHR '':'' # r0 \<Longrightarrow> u = u0 \<and> r = r0"
  by (cases u; cases u0) simp_all

lemma profileKey_inj:
  assumes "profileKey u i t = profileKey u0 i0 t0"
    and "CHR '':'' \<notin> set i0" and "CHR '':'' \<notin> set t0"
  shows "u = u0 \<and> i = i0 \<and> t = t0"
proof -
  from assms(1) have "utilityClassName u @ CHR '':'' # (i @ CHR '':'' # t)
      = utilityClassName u0 @ CHR '':'' # (i0 @ CHR '':'' # t0)"
    by (simp add: profileKey_def)
  then have "u = u0" and "i @ CHR '':'' # t = i0 @ CHR '':'' # t0"
    using utilityClassName_split by blast+
  with colon_split [OF _ assms(2,3)] show ?thesis by blast
qed

lemma PROFILE_TABLE_no_colon:
  "((u0, i0, t0), n) \<in> set PROFILE_TABLE \<Longrightarrow> CHR '':'' \<notin> set i0 \<and> CHR '':'' \<notin> set t0"
  by (auto simp: PROFILE_TABLE_def)

lemma PROFILE_TABLE_nonempty_names:
  "(k, n) \<in> set PROFILE_TABLE \<Longrightarrow> n \<noteq> []"
  by (auto simp: PROFILE_TABLE_def)

lemma map_of_renamed_keys:
  assumes "\<And>k v. (k, v) \<in> set xs \<Longrightarrow> f k = f x \<Longrightarrow> k = x"
  shows "map_of (map (\<lambda>(k, v). (f k, v)) xs) (f x) = map_of xs x"
  using assms
proof (induction xs)
  case Nil
  then show ?case by simp
next
  case (Cons p ps)
  obtain k v where p: "p = (k, v)" by (cases p)
  have rest: "\<And>k v. (k, v) \<in> set ps \<Longrightarrow> f k = f x \<Longrightarrow> k = x"
    using Cons.prems by (meson list.set_intros(2))
  have here: "f k = f x \<Longrightarrow> k = x"
    using Cons.prems [of k v] p by simp
  from Cons.IH [OF rest] p here show ?case
    by auto
qed

lemma PROFILE_NAMES_lookup:
  "map_of PROFILE_NAMES (profileKey u i t) = map_of PROFILE_TABLE (u, i, t)"
proof -
  have "map_of (map (\<lambda>(k, v). ((\<lambda>(u, i, t). profileKey u i t) k, v)) PROFILE_TABLE)
          ((\<lambda>(u, i, t). profileKey u i t) (u, i, t)) = map_of PROFILE_TABLE (u, i, t)"
  proof (rule map_of_renamed_keys)
    fix k v
    assume mem: "(k, v) \<in> set PROFILE_TABLE"
      and eq: "(\<lambda>(u, i, t). profileKey u i t) k = (\<lambda>(u, i, t). profileKey u i t) (u, i, t)"
    obtain u0 i0 t0 where k: "k = (u0, i0, t0)" by (cases k) auto
    from mem k have "CHR '':'' \<notin> set i0 \<and> CHR '':'' \<notin> set t0"
      using PROFILE_TABLE_no_colon by blast
    moreover from eq k have "profileKey u i t = profileKey u0 i0 t0" by simp
    ultimately have "u = u0 \<and> i = i0 \<and> t = t0" using profileKey_inj by blast
    with k show "k = (u, i, t)" by simp
  qed
  moreover have "map (\<lambda>(k, v). ((\<lambda>(u, i, t). profileKey u i t) k, v)) PROFILE_TABLE = PROFILE_NAMES"
    by (simp add: PROFILE_NAMES_def PROFILE_TABLE_def profileKey_def)
  ultimately show ?thesis by simp
qed

lemma truthy_table_entry:
  "truthyString (map_of PROFILE_TABLE k) = map_of PROFILE_TABLE k"
proof (cases "map_of PROFILE_TABLE k")
  case None
  then show ?thesis by (simp add: truthyString_def)
next
  case (Some n)
  then have "(k, n) \<in> set PROFILE_TABLE" by (rule map_of_SomeD)
  then have "n \<noteq> []" by (rule PROFILE_TABLE_nonempty_names)
  with Some show ?thesis by (simp add: truthyString_def)
qed

lemma resolveProfileName_table:
  "resolveProfileName u i t =
     (case map_of PROFILE_TABLE (u, i, t) of
        Some n \<Rightarrow> n
      | None \<Rightarrow> ''The '' @ capitalize (utilityClassName u) @ '' '' @ capitalize i)"
  by (simp add: resolveProfileName_def Let_def PROFILE_NAMES_lookup truthy_table_entry
      split: option.split)

lemma classLabels:
  "capitalize (utilityClassName Protocol) = ''Protocol''"
  "capitalize (utilityClassName Culture) = ''Culture''"
  "capitalize (utilityClassName Hybrid) = ''Hybrid''"
  by code_simp+

text \<open>
  C6. With no user theme the resolved theme is \<open>minimalist\<close> for a protocol token,
  \<open>retro-arcade\<close> for a culture token and \<open>cyberpunk\<close> for a hybrid one. For every
  resolved triple of utility class, intent and theme, the profile name is the entry of
  the table of named archetypes under that triple when there is one, and otherwise
  \<open>The\<close>, the class and the intent, each with its first letter in upper case. The name
  is a function of the triple alone, so equal inputs give equal names.
\<close>

theorem resolveToneProfile_theme_and_name:
  "tone_theme (resolveToneProfile Protocol userIntent None age) = ''minimalist''
   \<and> tone_theme (resolveToneProfile Culture userIntent None age) = ''retro-arcade''
   \<and> tone_theme (resolveToneProfile Hybrid userIntent None age) = ''cyberpunk''
   \<and> tone_utilityClass (resolveToneProfile u userIntent userTheme age) = u
   \<and> profileName (resolveToneProfile u userIntent userTheme age) =
       (let tone = resolveToneProfile u userIntent userTheme age
        in case map_of PROFILE_TABLE (u, tone_intent tone, tone_theme tone) of
             Some name \<Rightarrow> name
           | None \<Rightarrow> ''The '' @ capitalize (utilityClassName u) @ '' '' @ capitalize (tone_intent tone))
   \<and> capitalize (utilityClassName Protocol) = ''Protocol''
   \<and> capitalize (utilityClassName Culture) = ''Culture''
   \<and> capitalize (utilityClassName Hybrid) = ''Hybrid''
   \<and> capitalize ''launch'' = ''Launch''
   \<and> profileName (resolveToneProfile Protocol None None (Some 0)) = ''The Institutional Reveal''
   \<and> profileName (resolveToneProfile Culture (Some ''airdrop'') None None) = ''The Culture Airdrop''"
proof -
  have themes: "resolveTheme None Protocol = ''minimalist''"
    "resolveTheme None Culture = ''retro-arcade''" "resolveTheme None Hybrid = ''cyberpunk''"
    by (simp_all add: resolveTheme_def truthyString_def)
  have name: "profileName (resolveToneProfile u userIntent userTheme age) =
       (let tone = resolveToneProfile u userIntent userTheme age
        in case map_of PROFILE_TABLE (u, tone_intent tone, tone_theme tone) of
             Some name \<Rightarrow> name
           | None \<Rightarrow> ''The '' @ capitalize (utilityClassName u) @ '' '' @ capitalize (tone_intent tone))"
    by (simp add: resolveToneProfile_def Let_def resolveProfileName_table split: option.split)
  have ex1: "profileName (resolveToneProfile Protocol None None (Some 0)) = ''The Institutional Reveal''"
    by code_simp
  have ex2: "profileName (resolveToneProfile Culture (Some ''airdrop'') None None) = ''The Culture Airdrop''"
    by code_simp
  have cap: "capitalize ''launch'' = ''Launch''" by code_simp
  show ?thesis
    using themes name ex1 ex2 cap classLabels
    by (simp add: resolveToneProfile_def Let_def)
qed

subsection \<open>C8: the retry executor\<close>

lemma outcomes_nonempty: "0 < n \<Longrightarrow> outcomes fn w n \<noteq> []"
  by (cases n) (auto split: prod.splits sum.splits)

lemma outcomes_length: "length (outcomes fn w n) \<le> n"
  by (induction n arbitrary: w) (auto split: prod.splits sum.splits)

lemma outcomes_butlast: "r \<in> set (butlast (outcomes fn w n)) \<Longrightarrow> isl r"
  by (induction n arbitrary: w) (auto split: prod.splits sum.splits if_splits)

lemma outcomes_last_fail:
  "0 < n \<Longrightarrow> isl (last (outcomes fn w n)) \<Longrightarrow> length (outcomes fn w n) = n"
proof (induction n arbitrary: w)
  case 0
  then show ?case by simp
next
  case (Suc n)
  show ?case
  proof (cases "fn w")
    case (Pair r w')
    show ?thesis
    proof (cases r)
      case (Inl err)
      show ?thesis
      proof (cases n)
        case 0
        with Pair Inl show ?thesis by simp
      next
        case (Suc m)
        then have pos: "0 < n" by simp
        then have ne: "outcomes fn w' n \<noteq> []" by (rule outcomes_nonempty)
        with Suc.prems Pair Inl have "isl (last (outcomes fn w' n))" by simp
        with Suc.IH [OF pos] have "length (outcomes fn w' n) = n" by simp
        with Pair Inl show ?thesis by simp
      qed
    next
      case (Inr v)
      with Suc.prems Pair show ?thesis by simp
    qed
  qed
qed

lemma retryLoop_schedule:
  "attempt \<le> maxR \<Longrightarrow>
   retryLoop fn maxR b attempt lastError w events =
     (last (outcomes fn w (maxR + 1 - attempt)),
      worldAfter fn w (maxR + 1 - attempt),
      events @ schedule b attempt (outcomes fn w (maxR + 1 - attempt)))"
proof (induction fn maxR b attempt lastError w events rule: retryLoop.induct)
  case (1 fn maxR b attempt lastError w events)
  obtain r w' where fw: "fn w = (r, w')" by (cases "fn w")
  from "1.prems" obtain n where n: "maxR + 1 - attempt = Suc n" "n = maxR - attempt"
    by (cases "maxR + 1 - attempt") auto
  show ?case
  proof (cases r)
    case (Inr v)
    with fw n "1.prems" show ?thesis
      by (subst retryLoop.simps) simp
  next
    case (Inl err)
    show ?thesis
    proof (cases "attempt < maxR")
      case True
      then have pos: "0 < n" using n by simp
      from True have le: "attempt + 1 \<le> maxR" by simp
      have sub: "maxR + 1 - (attempt + 1) = n" using n by simp
      have ne: "outcomes fn w' n \<noteq> []" using pos by (rule outcomes_nonempty)
      then obtain x xs where xs: "outcomes fn w' n = x # xs" by (cases "outcomes fn w' n") auto
      have ih: "retryLoop fn maxR b (attempt + 1) err w'
              (events @ [Invoked (Inl err), Waited (b * 2 ^ attempt)]) =
            (last (outcomes fn w' n), worldAfter fn w' n,
             (events @ [Invoked (Inl err), Waited (b * 2 ^ attempt)])
               @ schedule b (attempt + 1) (outcomes fn w' n))"
        using "1.IH"(1) [OF "1.prems" fw [symmetric] Inl True le] by (simp only: sub)
      have step: "retryLoop fn maxR b attempt lastError w events =
          retryLoop fn maxR b (attempt + 1) err w'
              (events @ [Invoked (Inl err), Waited (b * 2 ^ attempt)])"
        using fw Inl True "1.prems" by (subst retryLoop.simps) simp
      have outs: "outcomes fn w (Suc n) = Inl err # outcomes fn w' n"
        using fw Inl by simp
      have lst: "last (Inl err # outcomes fn w' n) = last (outcomes fn w' n)"
        using ne by simp
      have wa: "worldAfter fn w (Suc n) = worldAfter fn w' n"
        using fw Inl by simp
      have sch: "schedule b attempt (Inl err # outcomes fn w' n) =
          Invoked (Inl err) # Waited (b * 2 ^ attempt) # schedule b (attempt + 1) (outcomes fn w' n)"
        using xs by simp
      show ?thesis
        unfolding n(1) step ih outs lst wa sch by simp
    next
      case False
      with "1.prems" have eq: "attempt = maxR" by simp
      then have n0: "n = 0" using n by simp
      have stop: "retryLoop fn maxR b (attempt + 1) err w' (events @ [Invoked (Inl err)])
          = (Inl err, w', events @ [Invoked (Inl err)])"
        using eq by (subst retryLoop.simps) simp
      from fw Inl n n0 False "1.prems" stop show ?thesis
        by (subst retryLoop.simps) simp
    qed
  qed
qed

lemma invocations_schedule: "invocations (schedule b k outs) = outs"
  by (induction b k outs rule: schedule.induct) (simp_all add: invocations_def)

lemma waits_schedule:
  "waits (schedule b k outs) = map (\<lambda>attempt. b * 2 ^ attempt) [k..<k + (length outs - 1)]"
proof (induction b k outs rule: schedule.induct)
  case (3 b k r r' rs)
  have "[k..<k + Suc (length rs)] = k # [Suc k..<k + Suc (length rs)]"
    by (rule upt_conv_Cons) simp
  with 3 show ?case by (simp add: waits_def)
qed (simp_all add: waits_def)

text \<open>
  C8. For every operation and every policy (\<open>maxRetries\<close>, 2 by default; \<open>baseDelayMs\<close>,
  1000 by default; a label), \<open>withRetry\<close> invokes the operation one time after the
  other, at least once and at most \<open>maxRetries + 1\<close> times; every invocation but the
  last one failed, so the first success ends the run and is the result; between two
  invocations it waits \<open>baseDelayMs * 2 ^ attempt\<close>, \<open>attempt\<close> counting from 0, and it
  does not wait elsewhere; and it throws only when all \<open>maxRetries + 1\<close> invocations
  failed, and then what it throws is the last error the operation raised.
\<close>

theorem withRetry_bounded_backoff:
  "(case withRetry fn opts w of
      (result, w', events) \<Rightarrow>
        (let m = (case maxRetries opts of None \<Rightarrow> 2 | Some k \<Rightarrow> k);
             b = (case baseDelayMs opts of None \<Rightarrow> 1000 | Some d \<Rightarrow> d);
             outs = invocations events
         in outs = outcomes fn w (m + 1)
            \<and> w' = worldAfter fn w (m + 1)
            \<and> 1 \<le> length outs \<and> length outs \<le> m + 1
            \<and> result = last outs
            \<and> (\<forall>r \<in> set (butlast outs). isl r)
            \<and> (isl result \<longrightarrow> length outs = m + 1)
            \<and> events = schedule b 0 outs
            \<and> waits events = map (\<lambda>attempt. b * 2 ^ attempt) [0..<length outs - 1]))"
proof -
  define m where "m = (case maxRetries opts of None \<Rightarrow> 2 | Some k \<Rightarrow> k)"
  define b where "b = (case baseDelayMs opts of None \<Rightarrow> 1000 | Some d \<Rightarrow> d)"
  define outs where "outs = outcomes fn w (m + 1)"
  have run: "withRetry fn opts w = (last outs, worldAfter fn w (m + 1), schedule b 0 outs)"
    using retryLoop_schedule [of 0 m fn b None w "[]"]
    by (simp add: withRetry_def m_def b_def outs_def)
  have inv: "invocations (schedule b 0 outs) = outs"
    by (rule invocations_schedule)
  have ne: "outs \<noteq> []"
    unfolding outs_def by (rule outcomes_nonempty) simp
  then have len1: "1 \<le> length outs"
    by (cases outs) simp_all
  have len2: "length outs \<le> m + 1"
    unfolding outs_def by (rule outcomes_length)
  have early: "\<forall>r \<in> set (butlast outs). isl r"
    unfolding outs_def by (rule ballI) (rule outcomes_butlast)
  have exhausted: "isl (last outs) \<longrightarrow> length outs = m + 1"
    unfolding outs_def using outcomes_last_fail [of "m + 1" fn w] by simp
  have ws: "waits (schedule b 0 outs) = map (\<lambda>attempt. b * 2 ^ attempt) [0..<length outs - 1]"
    using waits_schedule [of b 0 outs] by simp
  show ?thesis
    unfolding run
    using inv len1 len2 early exhausted ws
    by (simp add: m_def [symmetric] b_def [symmetric] outs_def [symmetric] Let_def
          del: outcomes.simps worldAfter.simps One_nat_def add_Suc_right)
qed

text \<open>
  An operation that is down on every call, under the default policy: three invocations,
  waits of 1000 and 2000 milliseconds between them, and the last error is thrown.
\<close>

theorem withRetry_bounded_backoff_witness:
  "withRetry alwaysDown \<lparr>maxRetries = None, baseDelayMs = None, label = Some ''remote''\<rparr> 0 =
     (Inl (Some ''ECONNRESET''), 3,
      [Invoked (Inl (Some ''ECONNRESET'')), Waited 1000,
       Invoked (Inl (Some ''ECONNRESET'')), Waited 2000,
       Invoked (Inl (Some ''ECONNRESET''))])
   \<and> length (outcomes alwaysDown 0 3) = 2 + 1
   \<and> set (butlast (outcomes alwaysDown 0 3)) = {Inl (Some ''ECONNRESET'')}
   \<and> isl (Inl (Some ''ECONNRESET'') :: string option + nat)"
  using withRetry_bounded_backoff
    [where fn = alwaysDown and w = 0
       and opts = "\<lparr>maxRetries = None, baseDelayMs = None, label = Some ''remote''\<rparr>"]
  by (simp add: withRetry_def retryLoop.simps alwaysDown_def eval_nat_numeral)

subsection \<open>Runs of the pipeline that return\<close>

text \<open>
  A run returns exactly when each of its six awaited stages returned; its output and its
  log are then made of what the stages returned.
\<close>

lemma await_Inr: "(await p k = Inr r) = (\<exists>v. p = Inr v \<and> k v = Inr r)"
  by (cases p) (simp_all add: await_def)

lemma runPipeline_Inr:
  assumes "runPipeline c input = Inr (out, lg)"
  shows "call_resolveToken c (ticker input) (contractAddress input) = Inr (logged_token lg)
    \<and> call_scrapeWebsite c (websiteUrl (logged_token lg)) = Inr (logged_website lg)
    \<and> call_manageLogo c (orElse (ticker input) ''TOKEN'') (logoUrl (logged_token lg))
          = Inr (logged_logo lg)
    \<and> (\<exists>themes brief tone cta.
          call_generateVideo c (orElse (ticker input) ''TOKEN'') themes (logged_logo lg)
            (finalLogoUrl (logged_logo lg)) brief tone cta = Inr (logged_video lg))
    \<and> logged_factors lg =
          \<lparr>websiteFound = found (logged_website lg),
           officialLogo = (truthyString (logoUrl (logged_token lg)) \<noteq> None
                           \<and> primarySource (resolutionSource (logged_token lg))),
           allClipsSucceeded = (clipsSucceeded (logged_video lg) = 2),
           noFallbacksUsed = (\<not> (resolutionSource (logged_token lg) = Fallback
                                 \<or> clipsSucceeded (logged_video lg) < 2))\<rparr>
    \<and> confidence_level out = computeConfidence (logged_factors lg)
    \<and> data_source out =
          determineDataSource (found (logged_website lg)) (resolutionSource (logged_token lg))
    \<and> launch_video_url out = launchVideoUrl (logged_video lg)"
  using assms unfolding runPipeline_def Let_def await_Inr primarySource_def
  by auto (intro exI, assumption)

lemma video_same:
  assumes "runPipeline (c\<lparr>call_generateBanner := banner1\<rparr>) input = Inr (out1, log1)"
      and "runPipeline (c\<lparr>call_generateBanner := banner2\<rparr>) input = Inr (out2, log2)"
  shows "launch_video_url out1 = launch_video_url out2
         \<and> logged_video log1 = logged_video log2"
  using assms unfolding runPipeline_def Let_def await_Inr
  by auto

lemma runPipelineTs_Inr:
  assumes "runPipelineTs c input = Inr (out, lg)"
  shows "(\<exists>tick themes logo url.
            ts_generateVideo c tick themes logo url (ts_style input) = Inr (logged_video lg))
    \<and> logged_factors lg =
          \<lparr>websiteFound = found (logged_website lg),
           officialLogo = (truthyString (logoUrl (logged_token lg)) \<noteq> None
                           \<and> primarySource (resolutionSource (logged_token lg))),
           allClipsSucceeded = (clipsSucceeded (logged_video lg) = 2),
           noFallbacksUsed = (\<not> (resolutionSource (logged_token lg) = Fallback
                                 \<or> clipsSucceeded (logged_video lg) < 2))\<rparr>
    \<and> ts_confidence_level out = computeConfidence (logged_factors lg)"
  using assms unfolding runPipelineTs_def Let_def await_Inr primarySource_def
  by auto (intro exI, assumption)

subsection \<open>Retried calls that always fail, or answer at once\<close>

lemma outcomes_all_fail:
  "(\<And>w. fst (fn w) = Inl e) \<Longrightarrow> outcomes fn w n = replicate n (Inl e)"
proof (induction n arbitrary: w)
  case 0
  show ?case by simp
next
  case (Suc n)
  obtain r w' where fw: "fn w = (r, w')" by (cases "fn w")
  with Suc.prems [of w] have "r = Inl e" by simp
  with fw Suc.IH [OF Suc.prems] show ?case by simp
qed

lemma outcomes_all_isl:
  "(\<And>w. isl (fst (fn w))) \<Longrightarrow> r \<in> set (outcomes fn w n) \<Longrightarrow> isl r"
proof (induction n arbitrary: w)
  case 0
  then show ?case by simp
next
  case (Suc n)
  obtain x w' where fw: "fn w = (x, w')" by (cases "fn w")
  with Suc.prems(1) [of w] obtain e where x: "x = Inl e" by (cases x) auto
  from Suc.prems(2) fw x have "r = Inl e \<or> r \<in> set (outcomes fn w' n)" by simp
  with Suc.IH [OF Suc.prems(1)] show ?case by auto
qed

lemma retried_result:
  "retried operation opts =
     last (outcomes (\<lambda>calls. (operation calls, Suc calls)) 0
             ((case maxRetries opts of None \<Rightarrow> 2 | Some k \<Rightarrow> k) + 1))"
  using retryLoop_schedule
    [of 0 "case maxRetries opts of None \<Rightarrow> 2 | Some k \<Rightarrow> k"
        "\<lambda>calls. (operation calls, Suc calls)"
        "case baseDelayMs opts of None \<Rightarrow> 1000 | Some d \<Rightarrow> d" None 0 "[]"]
  by (simp add: retried_def withRetry_def del: outcomes.simps)

lemma retried_fail:
  assumes "\<And>calls. operation calls = Inl e"
  shows "retried operation opts = Inl e"
proof -
  let ?fn = "\<lambda>calls. (operation calls, Suc calls)"
  let ?m = "case maxRetries opts of None \<Rightarrow> 2 | Some k \<Rightarrow> k"
  have "outcomes ?fn 0 (?m + 1) = replicate (?m + 1) (Inl e)"
    by (rule outcomes_all_fail) (simp add: assms)
  then have "last (outcomes ?fn 0 (?m + 1)) = Inl e"
    by (simp del: outcomes.simps replicate.simps)
  then show ?thesis
    by (simp only: retried_result)
qed

lemma retried_isl:
  assumes "\<And>calls. isl (operation calls)"
  shows "isl (retried operation opts)"
proof -
  let ?fn = "\<lambda>calls. (operation calls, Suc calls)"
  let ?m = "case maxRetries opts of None \<Rightarrow> 2 | Some k \<Rightarrow> k"
  have ne: "outcomes ?fn 0 (?m + 1) \<noteq> []"
    by (rule outcomes_nonempty) simp
  then have "last (outcomes ?fn 0 (?m + 1)) \<in> set (outcomes ?fn 0 (?m + 1))"
    by (rule last_in_set)
  then have "isl (last (outcomes ?fn 0 (?m + 1)))"
    by (rule outcomes_all_isl [rotated]) (simp add: assms)
  then show ?thesis
    by (simp only: retried_result)
qed

lemma retried_ok:
  assumes "operation 0 = Inr v"
  shows "retried operation opts = Inr v"
  using assms by (simp add: retried_def withRetry_def retryLoop.simps [of _ _ _ 0])

lemma case_sum_isl: "isl x \<Longrightarrow> case_sum f g x = f (projl x)"
  by (cases x) simp_all

subsection \<open>The token stage when its lookups fail\<close>

lemma resolveToken_lookups_fail:
  assumes "\<forall>t calls. isl (searchDexScreener env t calls)"
      and "\<forall>a calls. isl (lookupByAddress env a calls)"
  shows "resolveToken env tick address =
           Inr (case truthyString address of
                  None \<Rightarrow> bareResolution None Fallback
                | Some a \<Rightarrow> bareResolution (Some a) User)"
proof -
  have search: "isl (retried (searchDexScreener env t) opts)" for t opts
    by (rule retried_isl) (simp add: assms(1))
  have lookup: "isl (retried (lookupByAddress env a) opts)" for a opts
    by (rule retried_isl) (simp add: assms(2))
  have byTicker: "(case truthyString tick of
               None \<Rightarrow> None
             | Some t \<Rightarrow>
                 (case retried (searchDexScreener env t) (retryTwice ''dexscreener-search'') of
                    Inr (Some resolution) \<Rightarrow> Some resolution
                  | Inr None \<Rightarrow> None
                  | Inl err \<Rightarrow> None)) = None"
    by (simp add: case_sum_isl search split: option.split)
  show ?thesis
    unfolding resolveToken_def byTicker Let_def
    by (simp add: case_sum_isl lookup split: option.split)
qed

lemma resolveToken_returns: "\<not> isl (resolveToken env tick address)"
  by (auto simp: resolveToken_def Let_def split: option.splits sum.splits)

lemma scrapeWebsite_returns: "\<not> isl (scrapeWebsite env url)"
  by (auto simp: scrapeWebsite_def Let_def split: option.splits sum.splits)

lemma generateVideo_returns: "\<not> isl (generateVideo env tick themes logo url style)"
  by (auto simp: generateVideo_def Let_def split: list.splits)

lemma scrapeWebsite_found_text:
  "scrapeWebsite env url = Inr site \<Longrightarrow> found site = (truthyString (extractedText site) \<noteq> None)"
  by (auto simp: scrapeWebsite_def Let_def truthyString_def split: option.splits sum.splits if_splits)

subsection \<open>The stages of the sources, by what the services answer\<close>

lemma retried_const: "retried (\<lambda>calls. r) opts = r"
proof (cases r)
  case (Inl e)
  then show ?thesis by (simp add: retried_fail)
next
  case (Inr v)
  then show ?thesis by (simp add: retried_ok)
qed

lemma decimal_now: "decimal 1700000000000 = ''1700000000000''"
  by code_simp

lemma decimal_later: "decimal 1700000000999 = ''1700000000999''"
  by code_simp

lemma lower_doge: "toLowerCase ''DOGE'' = ''doge''"
  by code_simp

lemma uploadBuffer_no_bucket:
  "S3_BUCKET env = None \<Longrightarrow>
   uploadBuffer env key buffer contentType = Inr (''https://placeholder.s3.amazonaws.com/'' @ key)"
  by (simp add: uploadBuffer_def truthyString_def)

lemma scrapeWebsite_down:
  "fetchPage env = (\<lambda>u calls. down) \<Longrightarrow>
   scrapeWebsite env url = Inr \<lparr>extractedText = None, found = False\<rparr>"
  by (simp add: scrapeWebsite_def retried_const down_def split: option.split)


lemma manageLogo_placeholder:
  assumes "downloadImage env = (\<lambda>u calls. down)"
      and "createPlaceholderLogo env tick = Inr img" and "sharpPng env img = Inr png"
      and "S3_BUCKET env = None"
  shows "manageLogo env tick url =
           Inr \<lparr>finalLogoUrl = ''https://placeholder.s3.amazonaws.com/logos/'' @ toLowerCase tick
                                  @ ''-'' @ decimal (dateNow env) @ ''.png'',
                brandColors = extractColors env png\<rparr>"
  using assms
  by (simp add: manageLogo_def await_def retried_const down_def uploadBuffer_no_bucket Let_def
        split: option.split)


lemma generatePosts_down:
  "newOpenAI env = Inr () \<Longrightarrow> chatCompletion env = (\<lambda>b t s calls. down) \<Longrightarrow>
   generatePosts env brief tone site = down"
  by (simp add: generatePosts_def await_def retried_const)

lemma generatePosts_answer:
  "newOpenAI env = Inr () \<Longrightarrow> chatCompletion env = (\<lambda>b t s calls. Inr (answer b)) \<Longrightarrow>
   generatePosts env brief tone site = Inr (answer brief)"
  by (simp add: generatePosts_def await_def retried_const)

lemma generateBanner_download_down:
  assumes "generateBackground env = (\<lambda>prompt calls. down)"
      and "sharpGradient env tick (brandColors logo) = Inr gradient"
      and "S3_BUCKET env = None"
      and "axiosGet env = (\<lambda>u. down)"
  shows "generateBanner env tick themes logo tagline brief tone = down"
  using assms
  by (simp add: generateBanner_def generateFallbackBackground_def finalizeAndUpload_def await_def
        retried_const uploadBuffer_no_bucket Let_def down_def split: sum.split)



lemma generateBanner_gradient:
  assumes "generateBackground env = (\<lambda>prompt calls. down)"
      and "sharpGradient env tick (brandColors logo) = Inr gradient"
      and "compositeViaShotstack env = (\<lambda>b l t c calls. down)"
      and "axiosGet env = (\<lambda>u. Inr body)" and "sharpResizeJpeg env body = Inr jpeg"
      and "S3_BUCKET env = None"
  shows "generateBanner env tick themes logo tagline brief tone =
           Inr \<lparr>heroBannerUrl = ''https://placeholder.s3.amazonaws.com/banners/'' @ toLowerCase tick
                                  @ ''-'' @ decimal (dateNow env) @ ''.jpg''\<rparr>"
  using assms
  by (simp add: generateBanner_def generateFallbackBackground_def finalizeAndUpload_def await_def
        retried_const uploadBuffer_no_bucket Let_def down_def)


subsection \<open>The stages in the example worlds\<close>


lemma early_stages_down:
  assumes "searchDexScreener env = (\<lambda>t calls. down)"
      and "lookupByAddress env = (\<lambda>a calls. down)"
      and "fetchPage env = (\<lambda>u calls. down)"
      and "downloadImage env = (\<lambda>u calls. down)"
      and "createPlaceholderLogo env = (\<lambda>t. Inr ''placeholder-logo'')"
      and "sharpPng env = (\<lambda>b. Inr b)"
      and "colorThief env = (\<lambda>b. Inr \<lparr>primary = ''#6366f1'', secondary = ''#8b5cf6''\<rparr>)"
      and "S3_BUCKET env = None"
      and "dateNow env = 1700000000000"
  shows "resolveToken env tk address =
           Inr (case truthyString address of
                  None \<Rightarrow> bareResolution None Fallback
                | Some a \<Rightarrow> bareResolution (Some a) User)"
    and "scrapeWebsite env url = Inr \<lparr>extractedText = None, found = False\<rparr>"
    and "manageLogo env tick url =
           Inr \<lparr>finalLogoUrl = ''https://placeholder.s3.amazonaws.com/logos/'' @ toLowerCase tick
                                  @ ''-1700000000000.png'',
                brandColors = \<lparr>primary = ''#6366f1'', secondary = ''#8b5cf6''\<rparr>\<rparr>"
proof -
  show "resolveToken env tk address =
           Inr (case truthyString address of
                  None \<Rightarrow> bareResolution None Fallback
                | Some a \<Rightarrow> bareResolution (Some a) User)"
    by (rule resolveToken_lookups_fail) (simp_all add: assms down_def)
  show "scrapeWebsite env url = Inr \<lparr>extractedText = None, found = False\<rparr>"
    by (rule scrapeWebsite_down) (rule assms)
  show "manageLogo env tick url =
           Inr \<lparr>finalLogoUrl = ''https://placeholder.s3.amazonaws.com/logos/'' @ toLowerCase tick
                                  @ ''-1700000000000.png'',
                brandColors = \<lparr>primary = ''#6366f1'', secondary = ''#8b5cf6''\<rparr>\<rparr>"
    using manageLogo_placeholder [of env tick "''placeholder-logo''" "''placeholder-logo''" url]
    by (simp add: assms extractColors_def decimal_now)
qed

lemma offline_stages:
  "resolveToken offline tk address =
     Inr (case truthyString address of
            None \<Rightarrow> bareResolution None Fallback
          | Some a \<Rightarrow> bareResolution (Some a) User)"
  "scrapeWebsite offline url = Inr \<lparr>extractedText = None, found = False\<rparr>"
  "manageLogo offline tick url =
     Inr \<lparr>finalLogoUrl = ''https://placeholder.s3.amazonaws.com/logos/'' @ toLowerCase tick
                            @ ''-1700000000000.png'',
          brandColors = \<lparr>primary = ''#6366f1'', secondary = ''#8b5cf6''\<rparr>\<rparr>"
  "generatePosts offline brief tone site = down"
proof -
  show "resolveToken offline tk address =
     Inr (case truthyString address of
            None \<Rightarrow> bareResolution None Fallback
          | Some a \<Rightarrow> bareResolution (Some a) User)"
    by (rule early_stages_down) (simp_all add: offline_def)
  show "scrapeWebsite offline url = Inr \<lparr>extractedText = None, found = False\<rparr>"
    by (rule early_stages_down) (simp_all add: offline_def)
  show "manageLogo offline tick url =
     Inr \<lparr>finalLogoUrl = ''https://placeholder.s3.amazonaws.com/logos/'' @ toLowerCase tick
                            @ ''-1700000000000.png'',
          brandColors = \<lparr>primary = ''#6366f1'', secondary = ''#8b5cf6''\<rparr>\<rparr>"
    by (rule early_stages_down) (simp_all add: offline_def)
  show "generatePosts offline brief tone site = down"
    by (rule generatePosts_down) (simp_all add: offline_def)
qed

lemma textOnline_stages:
  "resolveToken textOnline tk address =
     Inr (case truthyString address of
            None \<Rightarrow> bareResolution None Fallback
          | Some a \<Rightarrow> bareResolution (Some a) User)"
  "scrapeWebsite textOnline url = Inr \<lparr>extractedText = None, found = False\<rparr>"
  "manageLogo textOnline tick url =
     Inr \<lparr>finalLogoUrl = ''https://placeholder.s3.amazonaws.com/logos/'' @ toLowerCase tick
                            @ ''-1700000000000.png'',
          brandColors = \<lparr>primary = ''#6366f1'', secondary = ''#8b5cf6''\<rparr>\<rparr>"
  "generatePosts textOnline brief tone site = Inr (answeredPosts (brief_ticker brief))"
  "generateBanner textOnline tick themes logo tagline brief tone = down"
proof -
  show "resolveToken textOnline tk address =
     Inr (case truthyString address of
            None \<Rightarrow> bareResolution None Fallback
          | Some a \<Rightarrow> bareResolution (Some a) User)"
    by (rule early_stages_down) (simp_all add: textOnline_def offline_def)
  show "scrapeWebsite textOnline url = Inr \<lparr>extractedText = None, found = False\<rparr>"
    by (rule early_stages_down) (simp_all add: textOnline_def offline_def)
  show "manageLogo textOnline tick url =
     Inr \<lparr>finalLogoUrl = ''https://placeholder.s3.amazonaws.com/logos/'' @ toLowerCase tick
                            @ ''-1700000000000.png'',
          brandColors = \<lparr>primary = ''#6366f1'', secondary = ''#8b5cf6''\<rparr>\<rparr>"
    by (rule early_stages_down) (simp_all add: textOnline_def offline_def)
  show "generatePosts textOnline brief tone site = Inr (answeredPosts (brief_ticker brief))"
    using generatePosts_answer [of textOnline "\<lambda>b. answeredPosts (brief_ticker b)" brief tone site]
    by (simp add: textOnline_def offline_def)
  show "generateBanner textOnline tick themes logo tagline brief tone = down"
    using generateBanner_download_down [of textOnline tick logo "''gradient''" themes tagline brief tone]
    by (simp add: textOnline_def offline_def)
qed

lemma downloadsOnline_stages:
  "resolveToken downloadsOnline tk address =
     Inr (case truthyString address of
            None \<Rightarrow> bareResolution None Fallback
          | Some a \<Rightarrow> bareResolution (Some a) User)"
  "scrapeWebsite downloadsOnline url = Inr \<lparr>extractedText = None, found = False\<rparr>"
  "manageLogo downloadsOnline tick url =
     Inr \<lparr>finalLogoUrl = ''https://placeholder.s3.amazonaws.com/logos/'' @ toLowerCase tick
                            @ ''-1700000000000.png'',
          brandColors = \<lparr>primary = ''#6366f1'', secondary = ''#8b5cf6''\<rparr>\<rparr>"
  "generatePosts downloadsOnline brief tone site = Inr (answeredPosts (brief_ticker brief))"
  "generateBanner downloadsOnline tick themes logo tagline brief tone =
     Inr \<lparr>heroBannerUrl = ''https://placeholder.s3.amazonaws.com/banners/'' @ toLowerCase tick
                             @ ''-1700000000000.jpg''\<rparr>"
  "generateBanner laterOnline tick themes logo tagline brief tone =
     Inr \<lparr>heroBannerUrl = ''https://placeholder.s3.amazonaws.com/banners/'' @ toLowerCase tick
                             @ ''-1700000000999.jpg''\<rparr>"
proof -
  show "resolveToken downloadsOnline tk address =
     Inr (case truthyString address of
            None \<Rightarrow> bareResolution None Fallback
          | Some a \<Rightarrow> bareResolution (Some a) User)"
    by (rule early_stages_down) (simp_all add: downloadsOnline_def textOnline_def offline_def)
  show "scrapeWebsite downloadsOnline url = Inr \<lparr>extractedText = None, found = False\<rparr>"
    by (rule early_stages_down) (simp_all add: downloadsOnline_def textOnline_def offline_def)
  show "manageLogo downloadsOnline tick url =
     Inr \<lparr>finalLogoUrl = ''https://placeholder.s3.amazonaws.com/logos/'' @ toLowerCase tick
                            @ ''-1700000000000.png'',
          brandColors = \<lparr>primary = ''#6366f1'', secondary = ''#8b5cf6''\<rparr>\<rparr>"
    by (rule early_stages_down) (simp_all add: downloadsOnline_def textOnline_def offline_def)
  show "generatePosts downloadsOnline brief tone site = Inr (answeredPosts (brief_ticker brief))"
    using generatePosts_answer [of downloadsOnline "\<lambda>b. answeredPosts (brief_ticker b)" brief tone site]
    by (simp add: downloadsOnline_def textOnline_def offline_def)
  show "generateBanner downloadsOnline tick themes logo tagline brief tone =
     Inr \<lparr>heroBannerUrl = ''https://placeholder.s3.amazonaws.com/banners/'' @ toLowerCase tick
                             @ ''-1700000000000.jpg''\<rparr>"
    using generateBanner_gradient [of downloadsOnline tick logo "''gradient''" "''bytes''" "''bytes''"
        themes tagline brief tone]
    by (simp add: downloadsOnline_def textOnline_def offline_def decimal_now)
  show "generateBanner laterOnline tick themes logo tagline brief tone =
     Inr \<lparr>heroBannerUrl = ''https://placeholder.s3.amazonaws.com/banners/'' @ toLowerCase tick
                             @ ''-1700000000999.jpg''\<rparr>"
    using generateBanner_gradient [of laterOnline tick logo "''gradient''" "''bytes''" "''bytes''"
        themes tagline brief tone]
    by (simp add: laterOnline_def downloadsOnline_def textOnline_def offline_def decimal_later)
qed

lemma run_downloadsOnline:
  assumes "\<And>tick themes logo tagline brief tone.
             banner tick themes logo tagline brief tone = Inr \<lparr>heroBannerUrl = url tick\<rparr>"
  shows "\<exists>out lg.
     runPipeline ((sourceStages downloadsOnline stillVideo)\<lparr>call_generateBanner := banner\<rparr>) input
       = Inr (out, lg)
     \<and> hero_banner_url out = url (orElse (ticker input) ''TOKEN'')
     \<and> launch_video_url out = finalLogoUrl (logged_logo lg)"
  by (simp add: runPipeline_def await_def Let_def sourceStages_def stillVideo_def assms
        downloadsOnline_stages)




subsection \<open>C1: the run when the services are down\<close>

text \<open>
  C1 says that \<open>runPipeline\<close> returns an output for every well-formed job and never
  raises, even when every collaborator call fails. The code does not do so. With the
  stages of the sources and every remote service down, the run rejects, for every job
  and whatever the video stage is: the post generator rethrows the connection error of
  the text model after its retries, and the orchestrator has no handler. With the text
  model alone answering, the run rejects as well: the banner generator downloads the
  banner outside its \<open>try\<close>.
\<close>

theorem runPipeline_rejects_when_services_are_down:
  "runPipeline (sourceStages offline video) input = Inl (Some ''ECONNREFUSED'')
   \<and> isl (runPipeline (sourceStages textOnline video) input)"
  by (simp add: runPipeline_def await_def Let_def sourceStages_def offline_stages textOnline_stages
        down_def)

text \<open>
  The tags of a degraded run that does return, whatever its stages are: when the token
  stage is the one of the sources and both of its lookups fail at every attempt, no
  website content was found and no clip succeeded, the confidence is 1, and the provenance
  is \<open>thematic_only\<close> for a job without a contract address and \<open>mixed\<close> for a job with one,
  the token stage then answering with source \<open>user\<close>.
\<close>

lemma runPipeline_degraded_tags:
  assumes run: "runPipeline c input = Inr (out, lg)"
      and search: "\<forall>t calls. isl (searchDexScreener env t calls)"
      and lookup: "\<forall>a calls. isl (lookupByAddress env a calls)"
      and stage: "call_resolveToken c = resolveToken env"
      and site: "\<not> found (logged_website lg)"
      and clips: "clipsSucceeded (logged_video lg) = 0"
  shows "confidence_level out = 1"
    and "data_source out =
           (if truthyString (contractAddress input) = None then ThematicOnly else Mixed)"
proof -
  note inv = runPipeline_Inr [OF run]
  from inv stage have "resolveToken env (ticker input) (contractAddress input) = Inr (logged_token lg)"
    by simp
  then have token: "logged_token lg =
      (case truthyString (contractAddress input) of
         None \<Rightarrow> bareResolution None Fallback
       | Some a \<Rightarrow> bareResolution (Some a) User)"
    using resolveToken_lookups_fail [OF search lookup, of "ticker input" "contractAddress input"]
    by simp
  from inv have conf: "confidence_level out = computeConfidence (logged_factors lg)"
    and factors: "logged_factors lg =
          \<lparr>websiteFound = found (logged_website lg),
           officialLogo = (truthyString (logoUrl (logged_token lg)) \<noteq> None
                           \<and> primarySource (resolutionSource (logged_token lg))),
           allClipsSucceeded = (clipsSucceeded (logged_video lg) = 2),
           noFallbacksUsed = (\<not> (resolutionSource (logged_token lg) = Fallback
                                 \<or> clipsSucceeded (logged_video lg) < 2))\<rparr>"
    and src: "data_source out =
          determineDataSource (found (logged_website lg)) (resolutionSource (logged_token lg))"
    by simp_all
  have nologo: "truthyString (logoUrl (logged_token lg)) = None"
    by (simp add: token bareResolution_def truthyString_def split: option.split)
  show "confidence_level out = 1"
    by (simp add: conf factors site clips nologo computeConfidence_def)
  show "data_source out =
            (if truthyString (contractAddress input) = None then ThematicOnly else Mixed)"
    by (simp add: src site token determineDataSource_def bareResolution_def split: option.split)
qed

subsection \<open>C3: the factor for the clips\<close>

text \<open>
  In both orchestrators the factor is the comparison of the count of clips with 2.
\<close>

lemma allClipsSucceeded_is_two:
  "runPipeline c input = Inr (out, lg) \<Longrightarrow>
   allClipsSucceeded (logged_factors lg) = (clipsSucceeded (logged_video lg) = 2)"
  using runPipeline_Inr [of c input out lg] by simp

lemma allClipsSucceeded_is_two_ts:
  "runPipelineTs c input = Inr (out, lg) \<Longrightarrow>
   allClipsSucceeded (logged_factors lg) = (clipsSucceeded (logged_video lg) = 2)"
  using runPipelineTs_Inr [of c input out lg] by simp



subsection \<open>C9: the creative brief\<close>

lemma floor_div_1000: "\<lfloor>(of_int k :: rat) / 1000\<rfloor> = k div 1000"
  using floor_divide_of_int_eq [of k 1000, where ?'a = rat] by simp

text \<open>
  C9, as the code has it. The one-liner is the first sentence of the website text (the text
  up to the first of \<open>.\<close>, \<open>!\<close>, \<open>?\<close>, trimmed) when the scrape found content and that
  sentence has more than 10 and at most 120 characters; otherwise it is the project name (the
  upper-cased ticker when there is none), a dash, \<open>a\<close>, the utility class and the words
  \<open>token on Base\<close>. The age is the whole seconds since the pair creation time when the
  liquidity pair has one (and it is not 0), and is \<open>null\<close> otherwise. The brand colours are
  the logo's; the social links are the token's, or the empty record.
\<close>

theorem buildCreativeBrief_fields:
  "oneLiner (buildCreativeBrief now tick token logo u site) =
     (let sentence = trim (firstSegment (case extractedText site of None \<Rightarrow> [] | Some t \<Rightarrow> t))
      in if found site \<and> 11 \<le> length sentence \<and> length sentence \<le> 120
         then sentence
         else (case projectName token of
                 None \<Rightarrow> toUpperCase tick
               | Some n \<Rightarrow> if n = [] then toUpperCase tick else n)
              @ '' '' @ EM_DASH @ '' a '' @ utilityClassName u @ '' token on Base'')
   \<and> tokenAgeSec (buildCreativeBrief now tick token logo u site) =
       (case pairCreatedAt token of
          None \<Rightarrow> Null
        | Some created \<Rightarrow>
            if created = 0 then Null else NonNull \<lfloor>(of_int (now - created) :: rat) / 1000\<rfloor>)
   \<and> brief_brandColors (buildCreativeBrief now tick token logo u site) = brandColors logo
   \<and> brief_socialLinks (buildCreativeBrief now tick token logo u site) =
       (case socialLinks token of None \<Rightarrow> emptySocialLinks | Some links \<Rightarrow> links)"
proof -
  have empty: "trim (firstSegment []) = []"
    by (simp add: trim_def firstSegment_def)
  have line: "oneLiner (buildCreativeBrief now tick token logo u site) =
     (let sentence = trim (firstSegment (case extractedText site of None \<Rightarrow> [] | Some t \<Rightarrow> t))
      in if found site \<and> 11 \<le> length sentence \<and> length sentence \<le> 120
         then sentence
         else (case projectName token of
                 None \<Rightarrow> toUpperCase tick
               | Some n \<Rightarrow> if n = [] then toUpperCase tick else n)
              @ '' '' @ EM_DASH @ '' a '' @ utilityClassName u @ '' token on Base'')"
    by (cases "extractedText site"; cases "projectName token")
      (auto simp: buildCreativeBrief_def Let_def truthyString_def orElse_def empty)
  have age: "tokenAgeSec (buildCreativeBrief now tick token logo u site) =
       (case pairCreatedAt token of
          None \<Rightarrow> Null
        | Some created \<Rightarrow>
            if created = 0 then Null else NonNull \<lfloor>(of_int (now - created) :: rat) / 1000\<rfloor>)"
    by (simp add: buildCreativeBrief_def Let_def floor_div_1000 del: of_int_diff split: option.split)
  show ?thesis
    using line age by (simp add: buildCreativeBrief_def Let_def)
qed

text \<open>
  The website scraper reports content exactly when it returns text, so for the scrape
  results of the program the condition on \<open>found\<close> adds nothing to the one on the sentence.
\<close>

lemma buildCreativeBrief_scraped:
  assumes "scrapeWebsite env url = Inr site"
  shows "oneLiner (buildCreativeBrief now tick token logo u site) =
     (let sentence = trim (firstSegment (case extractedText site of None \<Rightarrow> [] | Some t \<Rightarrow> t))
      in if 11 \<le> length sentence \<and> length sentence \<le> 120
         then sentence
         else orElse (projectName token) (toUpperCase tick)
              @ '' '' @ EM_DASH @ '' a '' @ utilityClassName u @ '' token on Base'')"
proof -
  have empty: "trim (firstSegment []) = []"
    by (simp add: trim_def firstSegment_def)
  from assms have "found site = (truthyString (extractedText site) \<noteq> None)"
    by (rule scrapeWebsite_found_text)
  then show ?thesis
    by (cases "extractedText site")
      (auto simp: buildCreativeBrief_def Let_def truthyString_def empty)
qed

text \<open>
  Against C9 as it is worded: the template ends with \<open>token on Base\<close>. The brief is the
  one of a job for \<open>doge\<close> when nothing was resolved and no website was found.
\<close>

theorem buildCreativeBrief_template_counterexample:
  "oneLiner (buildCreativeBrief 1700000000000 ''doge'' (bareResolution None Fallback) fallbackLogo
       Hybrid \<lparr>extractedText = None, found = False\<rparr>)
     = ''DOGE '' @ EM_DASH @ '' a hybrid token on Base''
   \<and> oneLiner (buildCreativeBrief 1700000000000 ''doge'' (bareResolution None Fallback) fallbackLogo
       Hybrid \<lparr>extractedText = None, found = False\<rparr>)
     \<noteq> ''DOGE '' @ EM_DASH @ '' a hybrid token''"
  by code_simp

subsection \<open>C10: the video does not depend on the banner\<close>

text \<open>
  C10. Take any stages and replace the banner stage by any two banner generators. When both
  runs return, they have the same video: the same URL, the same count of clips and the same
  result record. The video URL of the output is that of the video stage, and the video stage
  was called with the logo and with the final logo URL of that logo as its fourth argument.
\<close>

theorem video_independent_of_banner:
  assumes "runPipeline (c\<lparr>call_generateBanner := banner1\<rparr>) input = Inr (out1, log1)"
      and "runPipeline (c\<lparr>call_generateBanner := banner2\<rparr>) input = Inr (out2, log2)"
  shows "launch_video_url out1 = launch_video_url out2
         \<and> clipsSucceeded (logged_video log1) = clipsSucceeded (logged_video log2)
         \<and> logged_video log1 = logged_video log2
         \<and> launch_video_url out1 = launchVideoUrl (logged_video log1)
         \<and> (\<exists>themes brief tone cta.
               call_generateVideo c (orElse (ticker input) ''TOKEN'') themes (logged_logo log1)
                 (finalLogoUrl (logged_logo log1)) brief tone cta = Inr (logged_video log1))"
proof -
  have same: "launch_video_url out1 = launch_video_url out2 \<and> logged_video log1 = logged_video log2"
    using assms by (rule video_same)
  have inv: "launch_video_url out1 = launchVideoUrl (logged_video log1)
      \<and> (\<exists>themes brief tone cta.
           call_generateVideo (c\<lparr>call_generateBanner := banner1\<rparr>) (orElse (ticker input) ''TOKEN'')
             themes (logged_logo log1) (finalLogoUrl (logged_logo log1)) brief tone cta
             = Inr (logged_video log1))"
    using runPipeline_Inr [OF assms(1)] by blast
  then have call: "\<exists>themes brief tone cta.
           call_generateVideo c (orElse (ticker input) ''TOKEN'')
             themes (logged_logo log1) (finalLogoUrl (logged_logo log1)) brief tone cta
             = Inr (logged_video log1)"
    by simp
  from same have clips: "clipsSucceeded (logged_video log1) = clipsSucceeded (logged_video log2)"
    by simp
  from same clips inv call show ?thesis by blast
qed

text \<open>
  The statement above at the job \<open>tickerOnly\<close>, with the stages of the sources in the
  world \<open>downloadsOnline\<close> and two banner stages: the banner generator of the sources in
  that world, and the same generator with a later clock. Both runs return, their banners
  differ, and their video is the same; its address is the final logo URL, which is what
  the video stage of the example was given.
\<close>

theorem video_independent_of_banner_witness:
  "\<not> isl (runPipeline ((sourceStages downloadsOnline stillVideo)
              \<lparr>call_generateBanner := generateBanner downloadsOnline\<rparr>) tickerOnly)
   \<and> \<not> isl (runPipeline ((sourceStages downloadsOnline stillVideo)
              \<lparr>call_generateBanner := generateBanner laterOnline\<rparr>) tickerOnly)
   \<and> hero_banner_url (fst (projr (runPipeline ((sourceStages downloadsOnline stillVideo)
              \<lparr>call_generateBanner := generateBanner downloadsOnline\<rparr>) tickerOnly)))
       = ''https://placeholder.s3.amazonaws.com/banners/doge-1700000000000.jpg''
   \<and> hero_banner_url (fst (projr (runPipeline ((sourceStages downloadsOnline stillVideo)
              \<lparr>call_generateBanner := generateBanner laterOnline\<rparr>) tickerOnly)))
       = ''https://placeholder.s3.amazonaws.com/banners/doge-1700000000999.jpg''
   \<and> launch_video_url (fst (projr (runPipeline ((sourceStages downloadsOnline stillVideo)
              \<lparr>call_generateBanner := generateBanner downloadsOnline\<rparr>) tickerOnly)))
       = launch_video_url (fst (projr (runPipeline ((sourceStages downloadsOnline stillVideo)
              \<lparr>call_generateBanner := generateBanner laterOnline\<rparr>) tickerOnly)))
   \<and> launch_video_url (fst (projr (runPipeline ((sourceStages downloadsOnline stillVideo)
              \<lparr>call_generateBanner := generateBanner downloadsOnline\<rparr>) tickerOnly)))
       = finalLogoUrl (logged_logo (snd (projr (runPipeline ((sourceStages downloadsOnline stillVideo)
              \<lparr>call_generateBanner := generateBanner downloadsOnline\<rparr>) tickerOnly))))"
proof -
  let ?runA = "runPipeline ((sourceStages downloadsOnline stillVideo)
                 \<lparr>call_generateBanner := generateBanner downloadsOnline\<rparr>) tickerOnly"
  let ?runB = "runPipeline ((sourceStages downloadsOnline stillVideo)
                 \<lparr>call_generateBanner := generateBanner laterOnline\<rparr>) tickerOnly"
  have job: "orElse (ticker tickerOnly) ''TOKEN'' = ''DOGE''"
    by (simp add: tickerOnly_def orElse_def truthyString_def)
  obtain outA logA where a: "?runA = Inr (outA, logA)"
    "hero_banner_url outA = ''https://placeholder.s3.amazonaws.com/banners/doge-1700000000000.jpg''"
    "launch_video_url outA = finalLogoUrl (logged_logo logA)"
    using run_downloadsOnline [of "generateBanner downloadsOnline"
        "\<lambda>tick. ''https://placeholder.s3.amazonaws.com/banners/'' @ toLowerCase tick
                 @ ''-1700000000000.jpg''" tickerOnly]
    by (auto simp: downloadsOnline_stages job lower_doge)
  obtain outB logB where b: "?runB = Inr (outB, logB)"
    "hero_banner_url outB = ''https://placeholder.s3.amazonaws.com/banners/doge-1700000000999.jpg''"
    using run_downloadsOnline [of "generateBanner laterOnline"
        "\<lambda>tick. ''https://placeholder.s3.amazonaws.com/banners/'' @ toLowerCase tick
                 @ ''-1700000000999.jpg''" tickerOnly]
    by (auto simp: downloadsOnline_stages job lower_doge)
  have "launch_video_url outA = launch_video_url outB"
    using video_independent_of_banner [OF a(1) b(1)] by blast
  with a b show ?thesis by simp
qed

end
